theory Spec2Isabelle
  imports Complex_Main
begin

section \<open>JavaScript values, notifications and the effect trace\<close>

text \<open>
  The wallet front-end is straight-line asynchronous code around three wallet extensions
  and three chain SDKs. Everything it does besides returning a value is an effect: a
  toast, a console line, a call into an extension or SDK, a React state setter. The model
  records these effects, in program order, in a trace of events, and takes the answer of
  every extension or SDK call from an environment record, where each answer is either a
  value or a thrown JavaScript value. The toast function, the console and the React
  setters are taken not to throw.

  Strings are lists of 8-bit characters here, UTF-16 code units in the source; the
  string operations below (slice, includes, startsWith, split, the regular expression) are
  written per character and agree with the source on ASCII text.
\<close>

text \<open>
  A thrown value: an \<open>Error\<close> object with its message and optional \<open>code\<close> property, some
  other non-nullish value with its optional \<open>code\<close> property, or \<open>null\<close>/\<open>undefined\<close>.
\<close>

datatype js_exn = JsError string "int option" | JsValue "int option" | JsNullish

text \<open>\<open>error instanceof Error ? error.message : "Unknown error"\<close>\<close>

definition describeError :: "js_exn \<Rightarrow> string" where
  "describeError error = (case error of JsError m c \<Rightarrow> m | JsValue c \<Rightarrow> ''Unknown error''
     | JsNullish \<Rightarrow> ''Unknown error'')"

text \<open>
  The \<open>TypeError\<close> the engine raises when a property of \<open>null\<close> or \<open>undefined\<close> is read;
  the message text is the engine's and is fixed here to one representative.
\<close>

definition typeError :: js_exn where
  "typeError = JsError ''Cannot read properties of undefined'' None"

text \<open>\<open>switchError.code\<close>: reading the property throws on a nullish value.\<close>

definition readCode :: "js_exn \<Rightarrow> js_exn + int option" where
  "readCode error = (case error of JsError m c \<Rightarrow> Inr c | JsValue c \<Rightarrow> Inr c
     | JsNullish \<Rightarrow> Inl typeError)"

datatype variant = Default | Destructive

record notification =
  title :: string
  description :: string
  variant :: variant

text \<open>The \<open>Token\<close> and \<open>TransferParams\<close> interfaces of \<open>types/wallet\<close>.\<close>

record Token =
  id_tok :: string
  symbol :: string
  name :: string
  balance :: string
  decimals :: int
  address :: string
  chain_tok :: string
  logoURI :: string
  priceUSD :: string

record TransferParams =
  token :: Token
  toAddress :: string
  amount :: string

datatype event =
    Toast notification
  | ConsoleLog string
  | ConsoleWarn string
  | ConsoleError string
  | Sdk string "js_exn option"
  | SetTokenBalances "Token list"
  | SetFetchingBalances bool

text \<open>
  A computation yields its outcome (\<open>Inl\<close> a thrown value, \<open>Inr\<close> a result) and the
  events it produced. For an \<open>async\<close> function \<open>Inl\<close> is a rejected promise.
\<close>

type_synonym 'a io = "(js_exn + 'a) \<times> event list"

definition ret :: "'a \<Rightarrow> 'a io" where
  "ret x = (Inr x, [])"

definition throw :: "js_exn \<Rightarrow> 'a io" where
  "throw e = (Inl e, [])"

definition bindIO :: "'a io \<Rightarrow> ('a \<Rightarrow> 'b io) \<Rightarrow> 'b io" where
  "bindIO m f = (case m of
       (Inl e, t) \<Rightarrow> (Inl e, t)
     | (Inr x, t) \<Rightarrow> (case f x of (r, t') \<Rightarrow> (r, t @ t')))"

definition seqIO :: "'a io \<Rightarrow> 'b io \<Rightarrow> 'b io" where
  "seqIO m n = bindIO m (\<lambda>u. n)"

text \<open>\<open>try { m } catch (e) { h e }\<close>\<close>

definition tryCatch :: "'a io \<Rightarrow> (js_exn \<Rightarrow> 'a io) \<Rightarrow> 'a io" where
  "tryCatch m h = (case m of
       (Inl e, t) \<Rightarrow> (case h e of (r, t') \<Rightarrow> (r, t @ t'))
     | (Inr x, t) \<Rightarrow> (Inr x, t))"

text \<open>\<open>try { m } finally { fin }\<close>: \<open>fin\<close> always runs; if it throws, its error wins.\<close>

definition tryFinally :: "'a io \<Rightarrow> unit io \<Rightarrow> 'a io" where
  "tryFinally m fin = (case m of (r, t) \<Rightarrow>
     (case fin of (Inl e, t') \<Rightarrow> (Inl e, t @ t') | (Inr u, t') \<Rightarrow> (r, t @ t')))"

definition emit :: "event \<Rightarrow> unit io" where
  "emit ev = (Inr (), [ev])"

definition toast :: "notification \<Rightarrow> unit io" where
  "toast n = emit (Toast n)"

text \<open>A call into an extension or SDK: its answer comes from the environment.\<close>

definition sdk :: "string \<Rightarrow> js_exn + 'a \<Rightarrow> 'a io" where
  "sdk f answer = (answer, [Sdk f (case answer of Inl e \<Rightarrow> Some e | Inr x \<Rightarrow> None)])"

text \<open>Observations on a trace.\<close>

fun toastsOf :: "event list \<Rightarrow> notification list" where
  "toastsOf [] = []"
| "toastsOf (Toast n # evs) = n # toastsOf evs"
| "toastsOf (ev # evs) = toastsOf evs"

fun sdkCallsOf :: "event list \<Rightarrow> string list" where
  "sdkCallsOf [] = []"
| "sdkCallsOf (Sdk f r # evs) = f # sdkCallsOf evs"
| "sdkCallsOf (ev # evs) = sdkCallsOf evs"

fun thrownBy :: "event list \<Rightarrow> (string \<times> js_exn) list" where
  "thrownBy [] = []"
| "thrownBy (Sdk f (Some e) # evs) = (f, e) # thrownBy evs"
| "thrownBy (ev # evs) = thrownBy evs"

fun reportedBalances :: "event list \<Rightarrow> Token list list" where
  "reportedBalances [] = []"
| "reportedBalances (SetTokenBalances ts # evs) = ts # reportedBalances evs"
| "reportedBalances (ev # evs) = reportedBalances evs"

fun errorLogsOf :: "event list \<Rightarrow> string list" where
  "errorLogsOf [] = []"
| "errorLogsOf (ConsoleError m # evs) = m # errorLogsOf evs"
| "errorLogsOf (ev # evs) = errorLogsOf evs"

section \<open>The aggregation view\<close>

text \<open>
  \<open>handleSetTokenBalances\<close> of the index page passes React's state setter the updater
  \<open>prev \<mapsto> [...prev.filter(token \<Rightarrow> token.chain !== chain), ...tokens]\<close>; the model is that
  updater, from the prior aggregate list to the next.
\<close>

definition handleSetTokenBalances :: "Token list \<Rightarrow> string \<Rightarrow> Token list \<Rightarrow> Token list" where
  "handleSetTokenBalances tokens chain prev =
     (let filtered = filter (\<lambda>token. chain_tok token \<noteq> chain) prev
      in filtered @ tokens)"

text \<open>
  Each connector is mounted with \<open>setTokenBalances = tokens \<mapsto> handleSetTokenBalances(tokens, c)\<close>
  for its own tag \<open>c\<close> (\<open>"mvm"\<close>, \<open>"evm"\<close>, \<open>"svm"\<close>); \<open>deliver c\<close> applies, in order, every
  \<open>setTokenBalances\<close> call of a connector's trace to the aggregate list.
\<close>

fun deliver :: "string \<Rightarrow> event list \<Rightarrow> Token list \<Rightarrow> Token list" where
  "deliver c [] prev = prev"
| "deliver c (SetTokenBalances ts # evs) prev = deliver c evs (handleSetTokenBalances ts c prev)"
| "deliver c (ev # evs) prev = deliver c evs prev"

section \<open>JavaScript strings and numbers\<close>

text \<open>\<open>s.slice(0, 6)\<close> and \<open>s.slice(-4)\<close>, as used in the success notifications.\<close>

definition sliceFirst6 :: "string \<Rightarrow> string" where
  "sliceFirst6 s = take 6 s"

definition sliceLast4 :: "string \<Rightarrow> string" where
  "sliceLast4 s = drop (length s - 4) s"

definition shortAddress :: "string \<Rightarrow> string" where
  "shortAddress a = sliceFirst6 a @ ''...'' @ sliceLast4 a"

text \<open>\<open>s.startsWith(p)\<close>\<close>

definition startsWith :: "string \<Rightarrow> string \<Rightarrow> bool" where
  "startsWith p s = (take (length p) s = p)"

text \<open>\<open>s.includes("::")\<close>\<close>

fun includesColons :: "string \<Rightarrow> bool" where
  "includesColons (a # b # cs) = ((a = CHR '':'' \<and> b = CHR '':'') \<or> includesColons (b # cs))"
| "includesColons cs = False"

text \<open>\<open>s.split("::")[0]\<close>: the text before the first \<open>::\<close>, the whole string if there is none.\<close>

fun splitColonsHead :: "string \<Rightarrow> string" where
  "splitColonsHead (a # b # cs) =
     (if a = CHR '':'' \<and> b = CHR '':'' then [] else a # splitColonsHead (b # cs))"
| "splitColonsHead cs = cs"

text \<open>
  \<open>s.match(/<(.+)>/)?.[1] ?? ""\<close>. The match starts at the leftmost opening angle bracket
  that has a closing one at least two characters later with no line terminator in
  between, and the greedy group runs to the last such closing bracket. (The dot of the
  regular expression also excludes U+2028 and U+2029, which are not single characters
  here.)
\<close>

definition isLineTerminator :: "char \<Rightarrow> bool" where
  "isLineTerminator c = (c = CHR 0x0A \<or> c = CHR 0x0D)"

text \<open>The group matched by \<open>(.+)>\<close> on the text that follows a \<open><\<close>.\<close>

definition groupBeforeLastGt :: "string \<Rightarrow> string option" where
  "groupBeforeLastGt rest =
     (let run = takeWhile (\<lambda>c. \<not> isLineTerminator c) rest;
          ends = filter (\<lambda>j. run ! j = CHR ''>'') [1..<length run]
      in if ends = [] then None else Some (take (last ends) run))"

fun matchAngle :: "string \<Rightarrow> string option" where
  "matchAngle [] = None"
| "matchAngle (c # cs) =
     (if c = CHR ''<'' then
        (case groupBeforeLastGt cs of Some g \<Rightarrow> Some g | None \<Rightarrow> matchAngle cs)
      else matchAngle cs)"

definition typeArgument :: "string \<Rightarrow> string" where
  "typeArgument s = (case matchAngle s of Some g \<Rightarrow> g | None \<Rightarrow> [])"

text \<open>
  Numbers. The source computes in IEEE binary64; the model computes with exact rationals
  and keeps \<open>NaN\<close> and the two infinities apart. The two agree wherever every value
  involved is exactly representable, as for the integers below \<open>2^53\<close> of the scenarios
  proved here; rounding and overflow to infinity are not modelled.
\<close>

datatype jsnum = NaN | NegInf | Fin rat | PosInf

definition isNegative :: "jsnum \<Rightarrow> bool" where
  "isNegative x = (case x of NaN \<Rightarrow> False | NegInf \<Rightarrow> True | Fin r \<Rightarrow> r < 0 | PosInf \<Rightarrow> False)"

definition mulNum :: "jsnum \<Rightarrow> jsnum \<Rightarrow> jsnum" where
  "mulNum x y = (case (x, y) of
       (Fin a, Fin b) \<Rightarrow> Fin (a * b)
     | (a, b) \<Rightarrow> if x = NaN \<or> y = NaN \<or> x = Fin 0 \<or> y = Fin 0 then NaN
                else if isNegative x = isNegative y then PosInf else NegInf)"

fun lessNum :: "jsnum \<Rightarrow> jsnum \<Rightarrow> bool" where
  "lessNum NaN y = False"
| "lessNum x NaN = False"
| "lessNum x NegInf = False"
| "lessNum NegInf y = True"
| "lessNum PosInf y = False"
| "lessNum (Fin a) PosInf = True"
| "lessNum (Fin a) (Fin b) = (a < b)"

definition LAMPORTS_PER_SOL :: nat where
  "LAMPORTS_PER_SOL = 1000000000"

text \<open>
  \<open>parseFloat\<close>: leading white space is skipped, then the longest prefix that is a signed
  decimal literal (\<open>Infinity\<close>, or digits with an optional fraction and exponent) is read;
  anything after it is ignored, and \<open>NaN\<close> is the result when there is no such prefix.
\<close>

definition isStrWhiteSpace :: "char \<Rightarrow> bool" where
  "isStrWhiteSpace c = (c \<in> set [CHR 0x09, CHR 0x0A, CHR 0x0B, CHR 0x0C, CHR 0x0D, CHR 0x20])"

definition isDigit :: "char \<Rightarrow> bool" where
  "isDigit c = (c \<in> set ''0123456789'')"

text \<open>The value of a digit is its position among the ten digits.\<close>

definition digitVal :: "char \<Rightarrow> nat" where
  "digitVal c = length (takeWhile (\<lambda>d. d \<noteq> c) ''0123456789'')"

definition digitsVal :: "string \<Rightarrow> nat" where
  "digitsVal ds = foldl (\<lambda>n c. 10 * n + digitVal c) 0 ds"

text \<open>The exponent part \<open>e\<close>/\<open>E\<close>, optional sign, digits; \<open>0\<close> when there is none.\<close>

definition exponentPart :: "string \<Rightarrow> int" where
  "exponentPart s = (case s of
       [] \<Rightarrow> 0
     | e # r \<Rightarrow>
         if e = CHR ''e'' \<or> e = CHR ''E'' then
           (case r of
              [] \<Rightarrow> 0
            | sg # ds \<Rightarrow>
                if sg = CHR ''-'' then
                  (if takeWhile isDigit ds = [] then 0 else - int (digitsVal (takeWhile isDigit ds)))
                else if sg = CHR ''+'' then int (digitsVal (takeWhile isDigit ds))
                else int (digitsVal (takeWhile isDigit r)))
         else 0)"

definition scale10 :: "rat \<Rightarrow> int \<Rightarrow> rat" where
  "scale10 m ex = (if 0 \<le> ex then m * 10 ^ nat ex else m / 10 ^ nat (- ex))"

definition parseFloat :: "string \<Rightarrow> jsnum" where
  "parseFloat input =
     (let s = dropWhile isStrWhiteSpace input;
          neg = startsWith ''-'' s;
          u = (if startsWith ''-'' s \<or> startsWith ''+'' s then tl s else s)
      in if startsWith ''Infinity'' u then (if neg then NegInf else PosInf)
         else
           let ip = takeWhile isDigit u;
               r1 = dropWhile isDigit u;
               dot = startsWith ''.'' r1;
               fp = (if dot then takeWhile isDigit (tl r1) else []);
               r2 = (if dot then dropWhile isDigit (tl r1) else r1)
           in if ip = [] \<and> fp = [] then NaN
              else
                let m = rat_of_nat (digitsVal (ip @ fp)) / 10 ^ length fp;
                    v = scale10 m (exponentPart r2)
                in Fin (if neg then - v else v))"

section \<open>The environment: wallet extensions and chain SDKs\<close>

text \<open>
  A coin-store resource as \<open>getAccountResources\<close> returns it (\<open>type\<close> and
  \<open>data.coin.value\<close>), the \<open>data\<close> of a \<open>CoinInfo\<close> resource, where each of the three
  properties read may be absent, the injected Solana provider, and the payload handed to
  Petra. Resources are well-formed, as the node returns them: every resource has its
  \<open>type\<close>, every coin store its \<open>data.coin.value\<close>, every \<open>CoinInfo\<close> its \<open>data\<close> object, so
  that reading these properties does not throw.
\<close>

record resource =
  rtype :: string
  coin_value :: string

record coinInfo =
  ci_symbol :: "string option"
  ci_name :: "string option"
  ci_decimals :: "int option"

record solanaProvider =
  isConnected :: bool
  publicKey :: string

record payload =
  ptype :: string
  pfunction :: string
  type_arguments :: "string list"
  arguments :: "string list"

text \<open>
  The answers of the world outside the repository. A field of type \<open>js_exn + 'a\<close> is the
  answer to one call: \<open>Inl\<close> when the call throws or its promise rejects. The three
  \<open>window\<close> fields say whether the extension has injected its object. The request
  \<open>wallet_switchEthereumChain\<close> is made up to twice by one transfer, so its two answers
  are two fields. Constructors applied to the constant endpoint URLs
  (\<open>JsonRpcProvider\<close>, \<open>Connection\<close>, \<open>AptosClient\<close>, \<open>CoinClient\<close>, \<open>BrowserProvider\<close>) do
  not fail and are not part of the environment. \<open>formatEther\<close>, \<open>formatUnits\<close>,
  \<open>lamportsToSolString\<close> and \<open>coinBalanceString\<close> stand for number formatting done by
  ethers and by binary64 arithmetic (\<open>(balance / LAMPORTS_PER_SOL).toString()\<close>,
  \<open>(parseInt(balance) / Math.pow(10, decimals)).toString()\<close>); \<open>scaleAmount\<close> is the
  BigNumber expression of the Aptos transfer, which throws on a non-integer exponent.
\<close>

record env =
  windowEthereum :: bool
  windowSolana :: "solanaProvider option"
  windowPetra :: bool
  ethChainId :: "js_exn + string"
  switchChain :: "js_exn + unit"
  addChain :: "js_exn + unit"
  switchChainRetry :: "js_exn + unit"
  rpcGetBalance :: "string \<Rightarrow> string \<Rightarrow> js_exn + nat"
  formatEther :: "nat \<Rightarrow> string"
  formatUnits :: "nat \<Rightarrow> nat \<Rightarrow> string"
  newContract :: "string \<Rightarrow> js_exn + unit"
  erc20BalanceOf :: "string \<Rightarrow> string \<Rightarrow> js_exn + nat"
  erc20Decimals :: "string \<Rightarrow> js_exn + nat"
  getSigner :: "js_exn + unit"
  parseUnits :: "string \<Rightarrow> nat \<Rightarrow> js_exn + nat"
  parseEther :: "string \<Rightarrow> js_exn + nat"
  erc20Transfer :: "string \<Rightarrow> string \<Rightarrow> nat \<Rightarrow> js_exn + unit"
  sendTransaction :: "string \<Rightarrow> nat \<Rightarrow> js_exn + unit"
  txWait :: "js_exn + unit"
  solConnect :: "js_exn + unit"
  newPublicKey :: "string \<Rightarrow> js_exn + string"
  solGetBalance :: "string \<Rightarrow> js_exn + nat"
  systemTransfer :: "string \<Rightarrow> string \<Rightarrow> jsnum \<Rightarrow> js_exn + unit"
  getLatestBlockhash :: "js_exn + string"
  signTransaction :: "js_exn + unit"
  serializeTx :: "js_exn + unit"
  sendRawTransaction :: "js_exn + string"
  confirmTransaction :: "string \<Rightarrow> js_exn + unit"
  lamportsToSolString :: "nat \<Rightarrow> string"
  checkBalance :: "string \<Rightarrow> js_exn + nat"
  getAccount :: "string \<Rightarrow> js_exn + unit"
  getAccountResources :: "string \<Rightarrow> js_exn + resource list"
  getAccountResource :: "string \<Rightarrow> string \<Rightarrow> js_exn + coinInfo"
  petraIsConnected :: "js_exn + bool"
  petraConnect :: "js_exn + unit"
  petraAccount :: "js_exn + string"
  scaleAmount :: "string \<Rightarrow> int \<Rightarrow> js_exn + string"
  getLedgerInfo :: "js_exn + string"
  signAndSubmitTransaction :: "payload \<Rightarrow> js_exn + string"
  waitForTransaction :: "string \<Rightarrow> js_exn + unit"
  coinBalanceString :: "string \<Rightarrow> int \<Rightarrow> string"

definition CELO_RPC_URL :: string where
  "CELO_RPC_URL = ''https://alfajores-forno.celo-testnet.org''"

definition MAINNET_RPC_URL :: string where
  "MAINNET_RPC_URL = ''https://eth-mainnet.g.alchemy.com/v2/demo''"

section \<open>Balance helpers of \<open>utils/wallet.ts\<close>\<close>

text \<open>
  A source parameter that shares its name with a field of the data model (\<open>address\<close>,
  \<open>publicKey\<close>, \<open>token\<close>, \<open>toAddress\<close>, \<open>amount\<close>) is bound by a \<open>\<lambda>\<close> on the right-hand
  side, so that both keep the source's name.
\<close>

text \<open>\<open>bigint.toString()\<close>: the decimal digits of a natural number.\<close>

fun digitChar :: "nat \<Rightarrow> char" where
  "digitChar n = (''0123456789'' ! (n mod 10))"

function showNat :: "nat \<Rightarrow> string" where
  "showNat n = (if n < 10 then [digitChar n] else showNat (n div 10) @ [digitChar n])"
  by pat_completeness auto
termination
  by (relation "measure (\<lambda>n. n)") auto

definition getEVMBalance :: "env \<Rightarrow> string \<Rightarrow> string io" where
  "getEVMBalance env = (\<lambda>address.
     tryCatch
       (bindIO (sdk ''provider.getBalance'' (rpcGetBalance env CELO_RPC_URL address)) (\<lambda>balance.
        ret (formatEther env balance)))
       (\<lambda>error. seqIO (emit (ConsoleError ''Error getting EVM balance:'')) (ret ''0'')))"

definition getERC20Balance :: "env \<Rightarrow> string \<Rightarrow> string \<Rightarrow> string io" where
  "getERC20Balance env contractAddress walletAddress =
     tryCatch
       (seqIO (sdk ''new ethers.Contract'' (newContract env contractAddress))
       (bindIO (sdk ''tokenContract.balanceOf'' (erc20BalanceOf env contractAddress walletAddress))
          (\<lambda>balance.
        bindIO (sdk ''tokenContract.decimals'' (erc20Decimals env contractAddress)) (\<lambda>decimals.
        ret (formatUnits env balance decimals)))))
       (\<lambda>error. seqIO (emit (ConsoleError ''Error getting ERC20 balance:'')) (ret ''0''))"

definition getSolanaBalance :: "env \<Rightarrow> string \<Rightarrow> rat io" where
  "getSolanaBalance env = (\<lambda>publicKey.
     tryCatch
       (bindIO (sdk ''new PublicKey'' (newPublicKey env publicKey)) (\<lambda>key.
        bindIO (sdk ''connection.getBalance'' (solGetBalance env key)) (\<lambda>balance.
        ret (rat_of_nat balance / rat_of_nat LAMPORTS_PER_SOL))))
       (\<lambda>error. seqIO (emit (ConsoleError ''Error getting Solana balance:'')) (ret 0)))"

definition getMVMTokenBalance :: "env \<Rightarrow> string \<Rightarrow> string io" where
  "getMVMTokenBalance env walletAddress =
     tryCatch
       (bindIO (sdk ''coinClient.checkBalance'' (checkBalance env walletAddress)) (\<lambda>balance.
        ret (showNat balance)))
       (\<lambda>error. seqIO (emit (ConsoleError ''Error fetching MVM balance:'')) (ret ''0''))"

text \<open>
  \<open>getAllMVMTokenBalances\<close> has a \<open>return\<close> in each \<open>catch\<close> and none after the second
  \<open>try\<close>: when both calls succeed the function runs off its end and the promise resolves
  to \<open>undefined\<close>, which is \<open>None\<close> here; \<open>Some ts\<close> is a returned list. The first
  \<open>try\<close>/\<open>catch\<close> yields \<open>Some\<close> of the value returned from its \<open>catch\<close>, or \<open>None\<close> to go on.
\<close>

definition getAllMVMTokenBalances :: "env \<Rightarrow> string \<Rightarrow> Token list option io" where
  "getAllMVMTokenBalances env walletAddress =
     bindIO
       (tryCatch
          (seqIO (sdk ''client.getAccount'' (getAccount env walletAddress)) (ret None))
          (\<lambda>error.
             seqIO (toast \<lparr>title = ''Account Not Found'',
                      description = ''This Aptos address does not exist on chain. Please fund it with a small amount of APT to activate.'',
                      variant = Destructive\<rparr>)
                   (ret (Some []))))
       (\<lambda>returned. case returned of
            Some ts \<Rightarrow> ret (Some ts)
          | None \<Rightarrow>
              tryCatch
                (bindIO (sdk ''client.getAccountResources'' (getAccountResources env walletAddress))
                   (\<lambda>resources. ret None))
                (\<lambda>error.
                   seqIO (emit (ConsoleError ''Error fetching MVM token balances:''))
                         (ret (Some []))))"

section \<open>Transfers of \<open>utils/wallet.ts\<close>\<close>

definition transferFailed :: "js_exn \<Rightarrow> bool io" where
  "transferFailed error =
     seqIO (toast \<lparr>title = ''Transfer Failed'', description = describeError error,
              variant = Destructive\<rparr>)
           (ret False)"

definition transferMVMToken :: "env \<Rightarrow> Token \<Rightarrow> string \<Rightarrow> string \<Rightarrow> bool io" where
  "transferMVMToken env = (\<lambda>token toAddress amount.
     tryCatch
       (if \<not> windowPetra env then
          seqIO (toast \<lparr>title = ''Error'', description = ''Petra wallet not installed.'',
                   variant = Destructive\<rparr>)
                (ret False)
        else
          bindIO (sdk ''petra.isConnected'' (petraIsConnected env)) (\<lambda>connected.
          seqIO (if \<not> connected then sdk ''petra.connect'' (petraConnect env) else ret ())
         (bindIO (sdk ''petra.account'' (petraAccount env)) (\<lambda>accountAddress.
          if accountAddress = [] then
            seqIO (toast \<lparr>title = ''Error'', description = ''Could not get Petra wallet address.'',
                     variant = Destructive\<rparr>)
                  (ret False)
          else
            let typeTag = (if address token = [] \<or> \<not> includesColons (address token)
                           then ''0x1::aptos_coin::AptosCoin'' else address token)
            in
            bindIO (sdk ''BigNumber'' (scaleAmount env amount (decimals token)))
              (\<lambda>amountInSmallestUnit.
            bindIO (sdk ''client.getLedgerInfo'' (getLedgerInfo env)) (\<lambda>ledgerInfo.
            seqIO (emit (ConsoleLog ''Local time (s):''))
           (let payload = \<lparr>ptype = ''entry_function_payload'',
                            pfunction = ''0x1::coin::transfer'',
                            type_arguments = [typeTag],
                            arguments = [toAddress, amountInSmallestUnit]\<rparr>
            in
            bindIO (sdk ''petra.signAndSubmitTransaction'' (signAndSubmitTransaction env payload))
              (\<lambda>txnHash.
            seqIO (sdk ''client.waitForTransaction'' (waitForTransaction env txnHash))
           (seqIO (toast \<lparr>title = ''Transfer Successful'',
                     description = ''Transferred '' @ amount @ '' '' @ symbol token @ '' to ''
                                   @ shortAddress toAddress,
                     variant = Default\<rparr>)
                  (ret True))))))))))
       transferFailed)"

text \<open>
  The network switch at the head of \<open>transferERC20\<close>: \<open>None\<close> when the transfer goes on,
  \<open>Some b\<close> when one of the \<open>catch\<close> blocks returns \<open>b\<close> from the function. Reading
  \<open>switchError.code\<close> can itself throw, inside the \<open>catch\<close> block, to the enclosing \<open>try\<close>.
\<close>

definition switchToCelo :: "env \<Rightarrow> bool option io" where
  "switchToCelo env =
     tryCatch
       (seqIO (sdk ''wallet_switchEthereumChain'' (switchChain env)) (ret None))
       (\<lambda>switchError.
          bindIO (readCode switchError, []) (\<lambda>code.
          if code = Some 4902 then
            tryCatch
              (seqIO (sdk ''wallet_addEthereumChain'' (addChain env))
              (seqIO (sdk ''wallet_switchEthereumChain'' (switchChainRetry env))
                     (ret None)))
              (\<lambda>addError.
                 seqIO (toast \<lparr>title = ''Network Error'',
                          description = ''Could not switch to Celo Alfajores network'',
                          variant = Destructive\<rparr>)
                       (ret (Some False)))
          else
            seqIO (toast \<lparr>title = ''Network Error'',
                     description = ''Please switch to Celo Alfajores manually.'',
                     variant = Destructive\<rparr>)
                  (ret (Some False))))"

definition transferERC20 :: "env \<Rightarrow> string \<Rightarrow> string \<Rightarrow> string \<Rightarrow> bool io" where
  "transferERC20 env = (\<lambda>tokenAddress toAddress amount.
     tryCatch
       (if \<not> windowEthereum env then
          seqIO (toast \<lparr>title = ''Error'',
                   description = ''No Ethereum wallet found. Please install MetaMask.'',
                   variant = Destructive\<rparr>)
                (ret False)
        else
          bindIO (switchToCelo env) (\<lambda>returned. case returned of
              Some b \<Rightarrow> ret b
            | None \<Rightarrow>
                seqIO (sdk ''provider.getSigner'' (getSigner env))
               (seqIO
                  (if tokenAddress \<noteq> [] \<and> tokenAddress \<noteq> ''native'' then
                     seqIO (sdk ''new ethers.Contract'' (newContract env tokenAddress))
                    (bindIO (sdk ''tokenContract.decimals'' (erc20Decimals env tokenAddress))
                       (\<lambda>decimals.
                     bindIO (sdk ''ethers.parseUnits'' (parseUnits env amount decimals))
                       (\<lambda>amountInWei.
                     seqIO (sdk ''tokenContract.transfer''
                              (erc20Transfer env tokenAddress toAddress amountInWei))
                           (sdk ''tx.wait'' (txWait env)))))
                   else
                     bindIO (sdk ''ethers.parseEther'' (parseEther env amount)) (\<lambda>amountInWei.
                     seqIO (sdk ''signer.sendTransaction''
                              (sendTransaction env toAddress amountInWei))
                           (sdk ''tx.wait'' (txWait env))))
               (seqIO (toast \<lparr>title = ''Transfer Successful'',
                         description = ''Transferred '' @ amount @ '' to ''
                                       @ shortAddress toAddress,
                         variant = Default\<rparr>)
                      (ret True)))))
       transferFailed)"

definition transferSOL :: "env \<Rightarrow> string \<Rightarrow> string \<Rightarrow> bool io" where
  "transferSOL env = (\<lambda>toAddress amount.
     tryCatch
       (case windowSolana env of
          None \<Rightarrow>
            seqIO (toast \<lparr>title = ''Error'',
                     description = ''No Solana wallet found. Please install Phantom.'',
                     variant = Destructive\<rparr>)
                  (ret False)
        | Some solana \<Rightarrow>
            seqIO (if \<not> isConnected solana then sdk ''solana.connect'' (solConnect env)
                   else ret ())
           (let publicKey = publicKey solana in
            bindIO (sdk ''connection.getBalance'' (solGetBalance env publicKey))
              (\<lambda>currentBalance.
            let transferAmount = mulNum (parseFloat amount) (Fin (rat_of_nat LAMPORTS_PER_SOL))
            in
            if lessNum (Fin (rat_of_nat currentBalance)) transferAmount then
              seqIO (toast \<lparr>title = ''Insufficient Balance'',
                       description = ''You need at least '' @ amount @ '' SOL.'',
                       variant = Destructive\<rparr>)
                    (ret False)
            else
              bindIO (sdk ''new PublicKey'' (newPublicKey env toAddress)) (\<lambda>toPubkey.
              seqIO (sdk ''SystemProgram.transfer''
                       (systemTransfer env publicKey toPubkey transferAmount))
             (bindIO (sdk ''connection.getLatestBlockhash'' (getLatestBlockhash env))
                (\<lambda>blockhash.
              seqIO (sdk ''solana.signTransaction'' (signTransaction env))
             (seqIO (sdk ''signedTx.serialize'' (serializeTx env))
             (bindIO (sdk ''connection.sendRawTransaction'' (sendRawTransaction env))
                (\<lambda>signature.
              seqIO (sdk ''connection.confirmTransaction'' (confirmTransaction env signature))
             (seqIO (toast \<lparr>title = ''Transfer Successful'',
                       description = ''Transferred '' @ amount @ '' SOL to ''
                                     @ shortAddress toAddress,
                       variant = Default\<rparr>)
                    (ret True)))))))))))
       transferFailed)"

text \<open>
  \<open>transferTokens\<close>: the \<open>switch\<close> on \<open>token.chain\<close>; \<open>token.address || "native"\<close> replaces
  an empty address.
\<close>

definition transferTokens :: "env \<Rightarrow> TransferParams \<Rightarrow> bool io" where
  "transferTokens env params =
     (let token = token params; toAddress = toAddress params; amount = amount params
      in if chain_tok token = ''evm'' then
           transferERC20 env (if address token \<noteq> [] then address token else ''native'')
             toAddress amount
         else if chain_tok token = ''svm'' then transferSOL env toAddress amount
         else if chain_tok token = ''mvm'' then transferMVMToken env token toAddress amount
         else
           seqIO (toast \<lparr>title = ''Error'', description = ''Unsupported chain'',
                    variant = Destructive\<rparr>)
                 (ret False))"

section \<open>Balance fetchers of the three connectors\<close>

text \<open>
  Each connector's \<open>fetchTokenBalances\<close> reads the React state \<open>fetchingBalances\<close> of the
  render it was created in (a parameter here) and reports through the setters
  \<open>setFetchingBalances\<close> and \<open>setTokenBalances\<close>, which are events of the trace. The
  shape is the same in all three: a guard, then \<open>try\<close>/\<open>catch\<close>/\<open>finally\<close>. The EVM
  fetcher is the one of \<open>components/EVMWalletConnector.tsx\<close>, the file the index page
  imports.
\<close>

text \<open>\<open>window.ethereum.request(...)\<close> of the EVM connector: no check that the object exists.\<close>

definition windowEthereumRequest :: "env \<Rightarrow> string \<Rightarrow> js_exn + 'a \<Rightarrow> 'a io" where
  "windowEthereumRequest env method answer =
     (if windowEthereum env then sdk method answer else throw typeError)"

definition fetchTokenBalances_EVM :: "env \<Rightarrow> bool \<Rightarrow> string \<Rightarrow> unit io" where
  "fetchTokenBalances_EVM env fetchingBalances accountAddress =
     (if fetchingBalances then ret ()
      else
        tryFinally
          (tryCatch
             (seqIO (emit (ConsoleLog ''Fetching token balances for EVM wallet:''))
             (seqIO (emit (SetFetchingBalances True))
             (bindIO (windowEthereumRequest env ''eth_chainId'' (ethChainId env)) (\<lambda>chainId.
              seqIO (emit (ConsoleLog ''Current chain ID:''))
             (bindIO (sdk ''provider.getBalance''
                        (rpcGetBalance env
                           (if chainId = ''0xaef3'' then CELO_RPC_URL else MAINNET_RPC_URL)
                           accountAddress))
                (\<lambda>nativeBalance.
              let nativeToken =
                    \<lparr>id_tok = ''native'',
                     symbol = (if chainId = ''0xaef3'' then ''CELO'' else ''ETH''),
                     name = (if chainId = ''0xaef3'' then ''Celo'' else ''Ethereum''),
                     balance = formatEther env nativeBalance,
                     decimals = 18,
                     address = ''native'',
                     chain_tok = ''evm'',
                     logoURI = [],
                     priceUSD = ''0''\<rparr>
              in
              seqIO (emit (ConsoleLog ''Setting EVM token balances:''))
                    (emit (SetTokenBalances [nativeToken]))))))))
             (\<lambda>error.
                seqIO (emit (ConsoleError ''Error fetching EVM token balances:''))
               (let emptyToken =
                      \<lparr>id_tok = ''error'',
                       symbol = ''ERR'',
                       name = ''Error fetching tokens'',
                       balance = ''0'',
                       decimals = 18,
                       address = [],
                       chain_tok = ''ethereum'',
                       logoURI = [],
                       priceUSD = ''0''\<rparr>
                in emit (SetTokenBalances [emptyToken]))))
          (emit (SetFetchingBalances False)))"

definition fetchTokenBalances_SVM :: "env \<Rightarrow> bool \<Rightarrow> string \<Rightarrow> unit io" where
  "fetchTokenBalances_SVM env fetchingBalances publicKeyStr =
     (if fetchingBalances then ret ()
      else
        tryFinally
          (tryCatch
             (seqIO (emit (ConsoleLog ''Fetching token balances for Solana wallet:''))
             (seqIO (emit (SetFetchingBalances True))
             (bindIO (sdk ''new PublicKey'' (newPublicKey env publicKeyStr)) (\<lambda>publicKey.
              bindIO (sdk ''connection.getBalance'' (solGetBalance env publicKey)) (\<lambda>balance.
              let solToken =
                    \<lparr>id_tok = ''SOL'',
                     symbol = ''SOL'',
                     name = ''Solana'',
                     balance = lamportsToSolString env balance,
                     decimals = 9,
                     address = ''native'',
                     chain_tok = ''svm'',
                     logoURI = [],
                     priceUSD = ''0''\<rparr>
              in
              seqIO (emit (ConsoleLog ''Setting Solana token balances:''))
                    (emit (SetTokenBalances [solToken])))))))
             (\<lambda>error.
                seqIO (emit (ConsoleError ''Error fetching Solana token balances:''))
               (let emptyToken =
                      \<lparr>id_tok = ''error'',
                       symbol = ''ERR'',
                       name = ''Error fetching tokens'',
                       balance = ''0'',
                       decimals = 9,
                       address = [],
                       chain_tok = ''svm'',
                       logoURI = [],
                       priceUSD = ''0''\<rparr>
                in emit (SetTokenBalances [emptyToken]))))
          (emit (SetFetchingBalances False)))"

text \<open>
  The callback the Aptos connector maps over the coin stores. \<open>symbol\<close>, \<open>name\<close> and
  \<open>decimals\<close> start at their defaults and are overwritten, all three, only after the
  metadata lookup has returned; a lookup that throws is caught inside the callback and
  leaves the defaults.
\<close>

definition coinStoreToken :: "env \<Rightarrow> resource \<Rightarrow> Token io" where
  "coinStoreToken env resource =
     (let tokenType = typeArgument (rtype resource);
          balance = coin_value resource
      in
      bindIO
        (tryCatch
           (let creatorAddr = splitColonsHead tokenType in
            bindIO (sdk ''client.getAccountResource''
                      (getAccountResource env creatorAddr
                         (''0x1::coin::CoinInfo<'' @ tokenType @ ''>'')))
              (\<lambda>coinInfo.
            ret (case ci_symbol coinInfo of Some v \<Rightarrow> v | None \<Rightarrow> ''UNKNOWN'',
                 case ci_name coinInfo of Some v \<Rightarrow> v | None \<Rightarrow> ''Unknown Token'',
                 case ci_decimals coinInfo of Some v \<Rightarrow> v | None \<Rightarrow> 8)))
           (\<lambda>err.
              seqIO (emit (ConsoleWarn (''Failed to fetch metadata for '' @ tokenType @ '':'')))
                    (ret (''UNKNOWN'', ''Unknown Token'', 8))))
        (\<lambda>(symbol, name, decimals).
           ret \<lparr>id_tok = tokenType,
                symbol = symbol,
                name = name,
                balance = coinBalanceString env balance decimals,
                decimals = decimals,
                address = tokenType,
                chain_tok = ''mvm'',
                logoURI = [],
                priceUSD = ''0''\<rparr>))"

text \<open>
  \<open>await Promise.all(ms)\<close>: every computation runs; the result is the list of their values,
  or a thrown value if one of them threw. The source runs the callbacks interleaved; the
  trace lists their events one callback after the other, in list order.
\<close>

fun awaitAll :: "'a io list \<Rightarrow> 'a list io" where
  "awaitAll [] = ret []"
| "awaitAll (m # ms) =
     (case m of (r, t) \<Rightarrow>
        (case awaitAll ms of (rs, ts) \<Rightarrow>
           (case r of
              Inl e \<Rightarrow> Inl e
            | Inr x \<Rightarrow> (case rs of Inl e \<Rightarrow> Inl e | Inr xs \<Rightarrow> Inr (x # xs)),
            t @ ts)))"

definition isCoinStore :: "resource \<Rightarrow> bool" where
  "isCoinStore r = startsWith ''0x1::coin::CoinStore<'' (rtype r)"

definition fetchTokenBalances_MVM :: "env \<Rightarrow> bool \<Rightarrow> string \<Rightarrow> unit io" where
  "fetchTokenBalances_MVM env fetchingBalances accountAddress =
     (if fetchingBalances then ret ()
      else
        tryFinally
          (tryCatch
             (seqIO (emit (ConsoleLog ''Fetching token balances for MVM wallet:''))
             (seqIO (emit (SetFetchingBalances True))
             (bindIO (sdk ''client.getAccountResources'' (getAccountResources env accountAddress))
                (\<lambda>resources.
              seqIO (emit (ConsoleLog ''Account resources:''))
             (let coinStores = filter isCoinStore resources in
              seqIO (emit (ConsoleLog ''Found coin stores:''))
             (bindIO (awaitAll (map (coinStoreToken env) coinStores)) (\<lambda>otherTokens.
              let tokenBalances = [] @ otherTokens in
              seqIO (emit (ConsoleLog ''Setting token balances:''))
                    (emit (SetTokenBalances tokenBalances)))))))))
             (\<lambda>error.
                seqIO (emit (ConsoleError ''Error fetching token balances:''))
               (let emptyToken =
                      \<lparr>id_tok = ''error'',
                       symbol = ''ERR'',
                       name = ''Error fetching tokens'',
                       balance = ''0'',
                       decimals = 8,
                       address = [],
                       chain_tok = ''mvm'',
                       logoURI = [],
                       priceUSD = ''0''\<rparr>
                in emit (SetTokenBalances [emptyToken]))))
          (emit (SetFetchingBalances False)))"

section \<open>When a fetch fails\<close>

text \<open>
  A connector's fetch fails as a whole when one of the calls of its \<open>try\<close> block throws:
  for the EVM connector the \<open>eth_chainId\<close> request (also when \<open>window.ethereum\<close> is
  missing) or the balance query at the endpoint chosen by the chain id; for the Solana
  connector the construction of the public key or the balance query; for the Aptos
  connector the enumeration of the account's resources.
\<close>

definition evmFetchThrows :: "env \<Rightarrow> string \<Rightarrow> bool" where
  "evmFetchThrows env accountAddress =
     (if windowEthereum env then
        (case ethChainId env of
           Inl e \<Rightarrow> True
         | Inr chainId \<Rightarrow>
             isl (rpcGetBalance env
                    (if chainId = ''0xaef3'' then CELO_RPC_URL else MAINNET_RPC_URL)
                    accountAddress))
      else True)"

definition svmFetchThrows :: "env \<Rightarrow> string \<Rightarrow> bool" where
  "svmFetchThrows env publicKeyStr =
     (case newPublicKey env publicKeyStr of
        Inl e \<Rightarrow> True
      | Inr key \<Rightarrow> isl (solGetBalance env key))"

definition mvmFetchThrows :: "env \<Rightarrow> string \<Rightarrow> bool" where
  "mvmFetchThrows env accountAddress = isl (getAccountResources env accountAddress)"

text \<open>The error-marker records, as the three \<open>catch\<close> blocks build them.\<close>

definition evmErrorToken :: Token where
  "evmErrorToken =
     \<lparr>id_tok = ''error'', symbol = ''ERR'', name = ''Error fetching tokens'', balance = ''0'',
      decimals = 18, address = [], chain_tok = ''ethereum'', logoURI = [], priceUSD = ''0''\<rparr>"

definition svmErrorToken :: Token where
  "svmErrorToken =
     \<lparr>id_tok = ''error'', symbol = ''ERR'', name = ''Error fetching tokens'', balance = ''0'',
      decimals = 9, address = [], chain_tok = ''svm'', logoURI = [], priceUSD = ''0''\<rparr>"

definition mvmErrorToken :: Token where
  "mvmErrorToken =
     \<lparr>id_tok = ''error'', symbol = ''ERR'', name = ''Error fetching tokens'', balance = ''0'',
      decimals = 8, address = [], chain_tok = ''mvm'', logoURI = [], priceUSD = ''0''\<rparr>"

definition accountNotFound :: notification where
  "accountNotFound =
     \<lparr>title = ''Account Not Found'',
      description = ''This Aptos address does not exist on chain. Please fund it with a small amount of APT to activate.'',
      variant = Destructive\<rparr>"

text \<open>The metadata lookup the Aptos callback makes for a coin-store resource.\<close>

definition metadataLookup :: "env \<Rightarrow> resource \<Rightarrow> js_exn + coinInfo" where
  "metadataLookup env resource =
     (let tokenType = typeArgument (rtype resource)
      in getAccountResource env (splitColonsHead tokenType)
           (''0x1::coin::CoinInfo<'' @ tokenType @ ''>''))"

section \<open>Outcomes of a transfer\<close>

text \<open>A trace notifies a failure when it holds a toast of the destructive variant.\<close>

definition notifiesFailure :: "event list \<Rightarrow> bool" where
  "notifiesFailure tr = list_ex (\<lambda>n. variant n = Destructive) (toastsOf tr)"

text \<open>
  The one thrown error a transfer recovers from: the only call that threw is
  \<open>wallet_switchEthereumChain\<close>, rejected with code 4902 (the wallet does not know the
  network), after which \<open>transferERC20\<close> adds the network and switches again.
\<close>

definition recoveredSwitch :: "(string \<times> js_exn) list \<Rightarrow> bool" where
  "recoveredSwitch ths = (case ths of
       [(f, e)] \<Rightarrow> f = ''wallet_switchEthereumChain'' \<and> readCode e = Inr (Some 4902)
     | _ \<Rightarrow> False)"

text \<open>
  For the proofs: a computation run after the events \<open>p\<close>, and the invariant of the \<open>try\<close>
  block of a transfer routine. If the block throws, nothing destructive has been shown
  yet (the \<open>catch\<close> block will show it); if it returns \<open>b\<close>, then \<open>b\<close> is false exactly when
  a destructive toast was shown, and on \<open>true\<close> the thrown errors of the trace satisfy \<open>R\<close>.
\<close>

definition prepend :: "event list \<Rightarrow> 'a io \<Rightarrow> 'a io" where
  "prepend p m = (fst m, p @ snd m)"

definition wellBehaved :: "((string \<times> js_exn) list \<Rightarrow> bool) \<Rightarrow> bool io \<Rightarrow> bool" where
  "wellBehaved R m = (case m of
       (Inl e, t) \<Rightarrow> \<not> notifiesFailure t
     | (Inr b, t) \<Rightarrow> b = (\<not> notifiesFailure t) \<and> (if b then R (thrownBy t) else True))"

section \<open>Concrete environments and inputs\<close>

text \<open>
  An environment in which every extension is installed and every call succeeds. Its
  accounts hold nothing on the EVM and Aptos chains and 2.5 SOL on Solana; amounts in wei
  are rendered with one decimal place, so that zero reads \<open>0.0\<close>.
\<close>

definition happyEnv :: env where
  "happyEnv =
     \<lparr>windowEthereum = True,
      windowSolana = Some \<lparr>isConnected = True, publicKey = ''PayerKey''\<rparr>,
      windowPetra = True,
      ethChainId = Inr ''0xaef3'',
      switchChain = Inr (),
      addChain = Inr (),
      switchChainRetry = Inr (),
      rpcGetBalance = (\<lambda>url a. Inr 0),
      formatEther = (\<lambda>wei. showNat wei @ ''.0''),
      formatUnits = (\<lambda>v d. showNat v @ ''.0''),
      newContract = (\<lambda>a. Inr ()),
      erc20BalanceOf = (\<lambda>c a. Inr 0),
      erc20Decimals = (\<lambda>c. Inr 18),
      getSigner = Inr (),
      parseUnits = (\<lambda>s d. Inr 1),
      parseEther = (\<lambda>s. Inr 1),
      erc20Transfer = (\<lambda>c t v. Inr ()),
      sendTransaction = (\<lambda>t v. Inr ()),
      txWait = Inr (),
      solConnect = Inr (),
      newPublicKey = (\<lambda>s. Inr s),
      solGetBalance = (\<lambda>k. Inr 2500000000),
      systemTransfer = (\<lambda>f t n. Inr ()),
      getLatestBlockhash = Inr ''blockhash'',
      signTransaction = Inr (),
      serializeTx = Inr (),
      sendRawTransaction = Inr ''signature'',
      confirmTransaction = (\<lambda>s. Inr ()),
      lamportsToSolString = showNat,
      checkBalance = (\<lambda>a. Inr 0),
      getAccount = (\<lambda>a. Inr ()),
      getAccountResources = (\<lambda>a. Inr []),
      getAccountResource = (\<lambda>a t. Inr \<lparr>ci_symbol = Some ''APT'', ci_name = Some ''Aptos Coin'',
                                             ci_decimals = Some 8\<rparr>),
      petraIsConnected = Inr True,
      petraConnect = Inr (),
      petraAccount = Inr ''0xa11ce'',
      scaleAmount = (\<lambda>s d. Inr s),
      getLedgerInfo = Inr ''0'',
      signAndSubmitTransaction = (\<lambda>p. Inr ''0xhash''),
      waitForTransaction = (\<lambda>h. Inr ()),
      coinBalanceString = (\<lambda>v d. v)\<rparr>"

definition rpcDown :: js_exn where
  "rpcDown = JsError ''network error'' None"

text \<open>Every chain endpoint is unreachable: each balance query throws.\<close>

definition rpcDownEnv :: env where
  "rpcDownEnv =
     happyEnv\<lparr>ethChainId := Inl rpcDown,
              rpcGetBalance := (\<lambda>url a. Inl rpcDown),
              erc20BalanceOf := (\<lambda>c a. Inl rpcDown),
              solGetBalance := (\<lambda>k. Inl rpcDown),
              checkBalance := (\<lambda>a. Inl rpcDown),
              getAccount := (\<lambda>a. Inl rpcDown),
              getAccountResources := (\<lambda>a. Inl rpcDown)\<rparr>"

text \<open>Every account is empty: each balance query answers zero.\<close>

definition zeroBalanceEnv :: env where
  "zeroBalanceEnv = happyEnv\<lparr>solGetBalance := (\<lambda>k. Inr 0)\<rparr>"

text \<open>The Aptos account exists but its resources cannot be fetched.\<close>

definition resourcesDownEnv :: env where
  "resourcesDownEnv = happyEnv\<lparr>getAccountResources := (\<lambda>a. Inl rpcDown)\<rparr>"

text \<open>MetaMask does not know the Celo network yet: the first switch is rejected with code 4902.\<close>

definition unknownChainEnv :: env where
  "unknownChainEnv = happyEnv\<lparr>switchChain := Inl (JsValue (Some 4902))\<rparr>"

text \<open>
  An Aptos account with two coin stores and one other resource; the metadata of the
  second coin is unavailable.
\<close>

definition aptStore :: resource where
  "aptStore = \<lparr>rtype = ''0x1::coin::CoinStore<0x1::aptos_coin::AptosCoin>'', coin_value = ''100''\<rparr>"

definition fooStore :: resource where
  "fooStore = \<lparr>rtype = ''0x1::coin::CoinStore<0xf00::foo::Foo>'', coin_value = ''7''\<rparr>"

definition accountResource :: resource where
  "accountResource = \<lparr>rtype = ''0x1::account::Account'', coin_value = []\<rparr>"

definition fooMetadataDownEnv :: env where
  "fooMetadataDownEnv =
     happyEnv\<lparr>getAccountResources := (\<lambda>a. Inr [fooStore, accountResource, aptStore]),
              getAccountResource := (\<lambda>a t. if a = ''0xf00'' then Inl rpcDown
                 else Inr \<lparr>ci_symbol = Some ''APT'', ci_name = Some ''Aptos Coin'',
                          ci_decimals = Some 8\<rparr>)\<rparr>"

definition solToken :: Token where
  "solToken =
     \<lparr>id_tok = ''SOL'', symbol = ''SOL'', name = ''Solana'', balance = ''2.5'', decimals = 9,
      address = ''native'', chain_tok = ''svm'', logoURI = [], priceUSD = ''0''\<rparr>"

definition celoToken :: Token where
  "celoToken =
     \<lparr>id_tok = ''native'', symbol = ''CELO'', name = ''Celo'', balance = ''0.0'', decimals = 18,
      address = ''native'', chain_tok = ''evm'', logoURI = [], priceUSD = ''0''\<rparr>"

definition btcToken :: Token where
  "btcToken =
     \<lparr>id_tok = ''BTC'', symbol = ''BTC'', name = ''Bitcoin'', balance = ''1'', decimals = 8,
      address = ''native'', chain_tok = ''btc'', logoURI = [], priceUSD = ''0''\<rparr>"

definition solTransferParams :: TransferParams where
  "solTransferParams = \<lparr>token = solToken, toAddress = ''ReceiverKey'', amount = ''3.0''\<rparr>"

definition btcTransferParams :: TransferParams where
  "btcTransferParams = \<lparr>token = btcToken, toAddress = ''bc1receiver'', amount = ''1''\<rparr>"

text \<open>The user rejects every signature request; the chains answer.\<close>

definition userRejects :: js_exn where
  "userRejects = JsError ''User rejected the request.'' (Some 4001)"

definition userRejectsEnv :: env where
  "userRejectsEnv =
     happyEnv\<lparr>sendTransaction := (\<lambda>t v. Inl userRejects),
              erc20Transfer := (\<lambda>c t v. Inl userRejects),
              signTransaction := Inl userRejects,
              signAndSubmitTransaction := (\<lambda>p. Inl userRejects)\<rparr>"

definition aptToken :: Token where
  "aptToken =
     \<lparr>id_tok = ''0x1::aptos_coin::AptosCoin'', symbol = ''APT'', name = ''Aptos Coin'',
      balance = ''100'', decimals = 8, address = ''0x1::aptos_coin::AptosCoin'',
      chain_tok = ''mvm'', logoURI = [], priceUSD = ''0''\<rparr>"

definition celoTransferParams :: TransferParams where
  "celoTransferParams = \<lparr>token = celoToken, toAddress = ''0xdeadbeef00'', amount = ''0.1''\<rparr>"

definition aptTransferParams :: TransferParams where
  "aptTransferParams = \<lparr>token = aptToken, toAddress = ''0xb0b'', amount = ''1''\<rparr>"

section \<open>Basic facts\<close>

lemmas io_defs = ret_def throw_def bindIO_def seqIO_def tryCatch_def tryFinally_def emit_def
  toast_def sdk_def

lemmas scenario_defs = happyEnv_def rpcDownEnv_def rpcDown_def CELO_RPC_URL_def
  MAINNET_RPC_URL_def

lemma toastsOf_append: "toastsOf (xs @ ys) = toastsOf xs @ toastsOf ys"
  by (induction xs rule: toastsOf.induct) auto

lemma reportedBalances_append:
  "reportedBalances (xs @ ys) = reportedBalances xs @ reportedBalances ys"
  by (induction xs rule: reportedBalances.induct) auto

lemma errorLogsOf_append: "errorLogsOf (xs @ ys) = errorLogsOf xs @ errorLogsOf ys"
  by (induction xs rule: errorLogsOf.induct) auto

lemma thrownBy_append: "thrownBy (xs @ ys) = thrownBy xs @ thrownBy ys"
  by (induction xs rule: thrownBy.induct) auto

lemmas trace_append = toastsOf_append reportedBalances_append errorLogsOf_append

lemma notifiesFailure_append:
  "notifiesFailure (xs @ ys) = (notifiesFailure xs \<or> notifiesFailure ys)"
  by (simp add: notifiesFailure_def toastsOf_append)

text \<open>The decimal strings and type names of the scenarios, evaluated.\<close>

lemmas parseFloat_defs = parseFloat_def startsWith_def isStrWhiteSpace_def isDigit_def
  digitsVal_def digitVal_def exponentPart_def scale10_def

lemma parseFloat_0: "parseFloat ''0'' = Fin 0"
  by (simp add: parseFloat_defs)

lemma parseFloat_1: "parseFloat ''1'' = Fin 1"
  by (simp add: parseFloat_defs)

lemma parseFloat_3: "parseFloat ''3.0'' = Fin 3"
  by (simp add: parseFloat_defs)

lemma typeArgument_foo:
  "typeArgument ''0x1::coin::CoinStore<0xf00::foo::Foo>'' = ''0xf00::foo::Foo''"
  by code_simp

lemma typeArgument_apt:
  "typeArgument ''0x1::coin::CoinStore<0x1::aptos_coin::AptosCoin>''
     = ''0x1::aptos_coin::AptosCoin''"
  by code_simp

section \<open>Properties of the aggregation view\<close>

text \<open>
  C3. For every call \<open>handleSetTokenBalances(tokens, c)\<close> and every prior aggregate list,
  every token of the prior list whose chain tag differs from \<open>c\<close> is still in the
  resulting list, unchanged and as often as before: the tokens of other chains form,
  in their old order, the front of the result, ahead of the new tokens.
\<close>

theorem handleSetTokenBalances_keeps_other_chains:
  assumes "t \<in> set prev" and "chain_tok t \<noteq> c"
  shows "t \<in> set (handleSetTokenBalances tokens c prev)
       \<and> count_list prev t \<le> count_list (handleSetTokenBalances tokens c prev) t
       \<and> take (length (filter (\<lambda>x. chain_tok x \<noteq> c) prev)) (handleSetTokenBalances tokens c prev)
           = filter (\<lambda>x. chain_tok x \<noteq> c) prev"
proof -
  have cnt: "count_list (filter (\<lambda>x. chain_tok x \<noteq> c) xs) t = count_list xs t" for xs
    using assms(2) by (induction xs) auto
  show ?thesis
    using assms by (simp add: handleSetTokenBalances_def cnt)
qed

theorem handleSetTokenBalances_keeps_other_chains_witness:
  "solToken \<in> set [solToken, celoToken] \<and> chain_tok solToken \<noteq> ''evm''
   \<and> solToken \<in> set (handleSetTokenBalances [celoToken] ''evm'' [solToken, celoToken])
   \<and> count_list [solToken, celoToken] solToken
        \<le> count_list (handleSetTokenBalances [celoToken] ''evm'' [solToken, celoToken]) solToken
   \<and> handleSetTokenBalances [celoToken] ''evm'' [solToken, celoToken] = [solToken, celoToken]"
  using handleSetTokenBalances_keeps_other_chains
          [of solToken "[solToken, celoToken]" "''evm''" "[celoToken]"]
  by (simp add: solToken_def celoToken_def handleSetTokenBalances_def)

text \<open>
  The other half of the replacement: after an update for chain \<open>c\<close>, the tokens tagged \<open>c\<close>
  are exactly the new ones, so every prior token tagged \<open>c\<close> is gone unless it is reported
  again.
\<close>

lemma handleSetTokenBalances_replaces_tagged:
  assumes "t \<in> set (handleSetTokenBalances tokens c prev)" and "chain_tok t = c"
  shows "t \<in> set tokens"
  using assms by (auto simp: handleSetTokenBalances_def)

lemma deliver_append: "deliver c (xs @ ys) prev = deliver c ys (deliver c xs prev)"
  by (induction c xs prev rule: deliver.induct) auto

section \<open>Properties of the connectors' balance fetchers\<close>

text \<open>
  The whole trace of a failed fetch: the two opening events, the calls made before the
  failing one (\<open>pre\<close>: no toast, no report, no error line), then the error line, the
  report of the single marker record, and the release of the in-flight flag.
\<close>

lemma evm_failure_trace:
  assumes "evmFetchThrows env a"
  shows "\<exists>pre. fetchTokenBalances_EVM env False a =
           (Inr (), ConsoleLog ''Fetching token balances for EVM wallet:''
              # SetFetchingBalances True # pre @
              [ConsoleError ''Error fetching EVM token balances:'',
               SetTokenBalances [evmErrorToken], SetFetchingBalances False])
         \<and> toastsOf pre = [] \<and> reportedBalances pre = [] \<and> errorLogsOf pre = []"
  using assms
  by (auto simp: evmFetchThrows_def fetchTokenBalances_EVM_def windowEthereumRequest_def
      io_defs evmErrorToken_def split: sum.splits if_splits)

lemma svm_failure_trace:
  assumes "svmFetchThrows env a"
  shows "\<exists>pre. fetchTokenBalances_SVM env False a =
           (Inr (), ConsoleLog ''Fetching token balances for Solana wallet:''
              # SetFetchingBalances True # pre @
              [ConsoleError ''Error fetching Solana token balances:'',
               SetTokenBalances [svmErrorToken], SetFetchingBalances False])
         \<and> toastsOf pre = [] \<and> reportedBalances pre = [] \<and> errorLogsOf pre = []"
  using assms
  by (auto simp: svmFetchThrows_def fetchTokenBalances_SVM_def
      io_defs svmErrorToken_def split: sum.splits if_splits)

lemma mvm_failure_trace:
  assumes "mvmFetchThrows env a"
  shows "\<exists>pre. fetchTokenBalances_MVM env False a =
           (Inr (), ConsoleLog ''Fetching token balances for MVM wallet:''
              # SetFetchingBalances True # pre @
              [ConsoleError ''Error fetching token balances:'',
               SetTokenBalances [mvmErrorToken], SetFetchingBalances False])
         \<and> toastsOf pre = [] \<and> reportedBalances pre = [] \<and> errorLogsOf pre = []"
  using assms
  by (auto simp: mvmFetchThrows_def fetchTokenBalances_MVM_def
      io_defs mvmErrorToken_def split: sum.splits if_splits)

text \<open>What a caller and a user can observe of a failed fetch.\<close>

lemma evm_failure_observed:
  assumes "evmFetchThrows env a"
  shows "fst (fetchTokenBalances_EVM env False a) = Inr ()"
    and "toastsOf (snd (fetchTokenBalances_EVM env False a)) = []"
    and "errorLogsOf (snd (fetchTokenBalances_EVM env False a))
          = [''Error fetching EVM token balances:'']"
    and "reportedBalances (snd (fetchTokenBalances_EVM env False a)) = [[evmErrorToken]]"
proof -
  from evm_failure_trace [OF assms] obtain pre where
    p: "fetchTokenBalances_EVM env False a =
           (Inr (), ConsoleLog ''Fetching token balances for EVM wallet:''
              # SetFetchingBalances True # pre @
              [ConsoleError ''Error fetching EVM token balances:'',
               SetTokenBalances [evmErrorToken], SetFetchingBalances False])"
    and q: "toastsOf pre = []" "reportedBalances pre = []" "errorLogsOf pre = []" by blast
  show "fst (fetchTokenBalances_EVM env False a) = Inr ()"
    and "toastsOf (snd (fetchTokenBalances_EVM env False a)) = []"
    and "errorLogsOf (snd (fetchTokenBalances_EVM env False a))
          = [''Error fetching EVM token balances:'']"
    and "reportedBalances (snd (fetchTokenBalances_EVM env False a)) = [[evmErrorToken]]"
    by (simp_all add: p q trace_append)
qed

lemma svm_failure_observed:
  assumes "svmFetchThrows env a"
  shows "fst (fetchTokenBalances_SVM env False a) = Inr ()"
    and "toastsOf (snd (fetchTokenBalances_SVM env False a)) = []"
    and "errorLogsOf (snd (fetchTokenBalances_SVM env False a))
          = [''Error fetching Solana token balances:'']"
    and "reportedBalances (snd (fetchTokenBalances_SVM env False a)) = [[svmErrorToken]]"
proof -
  from svm_failure_trace [OF assms] obtain pre where
    p: "fetchTokenBalances_SVM env False a =
           (Inr (), ConsoleLog ''Fetching token balances for Solana wallet:''
              # SetFetchingBalances True # pre @
              [ConsoleError ''Error fetching Solana token balances:'',
               SetTokenBalances [svmErrorToken], SetFetchingBalances False])"
    and q: "toastsOf pre = []" "reportedBalances pre = []" "errorLogsOf pre = []" by blast
  show "fst (fetchTokenBalances_SVM env False a) = Inr ()"
    and "toastsOf (snd (fetchTokenBalances_SVM env False a)) = []"
    and "errorLogsOf (snd (fetchTokenBalances_SVM env False a))
          = [''Error fetching Solana token balances:'']"
    and "reportedBalances (snd (fetchTokenBalances_SVM env False a)) = [[svmErrorToken]]"
    by (simp_all add: p q trace_append)
qed

lemma mvm_failure_observed:
  assumes "mvmFetchThrows env a"
  shows "fst (fetchTokenBalances_MVM env False a) = Inr ()"
    and "toastsOf (snd (fetchTokenBalances_MVM env False a)) = []"
    and "errorLogsOf (snd (fetchTokenBalances_MVM env False a))
          = [''Error fetching token balances:'']"
    and "reportedBalances (snd (fetchTokenBalances_MVM env False a)) = [[mvmErrorToken]]"
proof -
  from mvm_failure_trace [OF assms] obtain pre where
    p: "fetchTokenBalances_MVM env False a =
           (Inr (), ConsoleLog ''Fetching token balances for MVM wallet:''
              # SetFetchingBalances True # pre @
              [ConsoleError ''Error fetching token balances:'',
               SetTokenBalances [mvmErrorToken], SetFetchingBalances False])"
    and q: "toastsOf pre = []" "reportedBalances pre = []" "errorLogsOf pre = []" by blast
  show "fst (fetchTokenBalances_MVM env False a) = Inr ()"
    and "toastsOf (snd (fetchTokenBalances_MVM env False a)) = []"
    and "errorLogsOf (snd (fetchTokenBalances_MVM env False a))
          = [''Error fetching token balances:'']"
    and "reportedBalances (snd (fetchTokenBalances_MVM env False a)) = [[mvmErrorToken]]"
    by (simp_all add: p q trace_append)
qed

text \<open>
  The three failure conditions are exact: when none of the calls throws, the EVM and
  Solana fetchers report the native token (the Aptos fetcher is the subject of C6).
\<close>

lemma evm_success_report:
  assumes "\<not> evmFetchThrows env a"
  shows "\<exists>t. reportedBalances (snd (fetchTokenBalances_EVM env False a)) = [[t]]
           \<and> id_tok t = ''native'' \<and> (symbol t = ''CELO'' \<or> symbol t = ''ETH'')
           \<and> chain_tok t = ''evm''"
  using assms
  by (auto simp: evmFetchThrows_def fetchTokenBalances_EVM_def windowEthereumRequest_def
      io_defs split: sum.splits if_splits)

lemma svm_success_report:
  assumes "\<not> svmFetchThrows env a"
  shows "\<exists>t. reportedBalances (snd (fetchTokenBalances_SVM env False a)) = [[t]]
           \<and> id_tok t = ''SOL'' \<and> symbol t = ''SOL'' \<and> chain_tok t = ''svm''"
  using assms
  by (auto simp: svmFetchThrows_def fetchTokenBalances_SVM_def io_defs
      split: sum.splits if_splits)

text \<open>
  C4. For each of the three balance fetchers, whenever the fetch fails as a whole (a call
  of its \<open>try\<close> block throws), the fetcher returns normally and reports exactly one list,
  holding exactly one token, whose symbol is \<open>"ERR"\<close> and whose balance is \<open>"0"\<close>: neither an
  empty list nor a propagated exception.
\<close>

theorem fetch_failure_reports_one_ERR_token:
  "(evmFetchThrows env a \<longrightarrow>
      fst (fetchTokenBalances_EVM env False a) = Inr ()
      \<and> (\<exists>t. reportedBalances (snd (fetchTokenBalances_EVM env False a)) = [[t]]
              \<and> symbol t = ''ERR'' \<and> balance t = ''0''))
   \<and> (svmFetchThrows env a \<longrightarrow>
      fst (fetchTokenBalances_SVM env False a) = Inr ()
      \<and> (\<exists>t. reportedBalances (snd (fetchTokenBalances_SVM env False a)) = [[t]]
              \<and> symbol t = ''ERR'' \<and> balance t = ''0''))
   \<and> (mvmFetchThrows env a \<longrightarrow>
      fst (fetchTokenBalances_MVM env False a) = Inr ()
      \<and> (\<exists>t. reportedBalances (snd (fetchTokenBalances_MVM env False a)) = [[t]]
              \<and> symbol t = ''ERR'' \<and> balance t = ''0''))"
proof (intro conjI impI)
  assume h: "evmFetchThrows env a"
  show "fst (fetchTokenBalances_EVM env False a) = Inr ()"
    by (rule evm_failure_observed(1) [OF h])
  show "\<exists>t. reportedBalances (snd (fetchTokenBalances_EVM env False a)) = [[t]]
              \<and> symbol t = ''ERR'' \<and> balance t = ''0''"
    by (simp add: evm_failure_observed(4) [OF h] evmErrorToken_def)
next
  assume h: "svmFetchThrows env a"
  show "fst (fetchTokenBalances_SVM env False a) = Inr ()"
    by (rule svm_failure_observed(1) [OF h])
  show "\<exists>t. reportedBalances (snd (fetchTokenBalances_SVM env False a)) = [[t]]
              \<and> symbol t = ''ERR'' \<and> balance t = ''0''"
    by (simp add: svm_failure_observed(4) [OF h] svmErrorToken_def)
next
  assume h: "mvmFetchThrows env a"
  show "fst (fetchTokenBalances_MVM env False a) = Inr ()"
    by (rule mvm_failure_observed(1) [OF h])
  show "\<exists>t. reportedBalances (snd (fetchTokenBalances_MVM env False a)) = [[t]]
              \<and> symbol t = ''ERR'' \<and> balance t = ''0''"
    by (simp add: mvm_failure_observed(4) [OF h] mvmErrorToken_def)
qed

theorem fetch_failure_reports_one_ERR_token_witness:
  "evmFetchThrows rpcDownEnv ''0xa11ce'' \<and> svmFetchThrows rpcDownEnv ''0xa11ce''
   \<and> mvmFetchThrows rpcDownEnv ''0xa11ce''
   \<and> fst (fetchTokenBalances_EVM rpcDownEnv False ''0xa11ce'') = Inr ()
   \<and> reportedBalances (snd (fetchTokenBalances_EVM rpcDownEnv False ''0xa11ce''))
       = [[evmErrorToken]]
   \<and> fst (fetchTokenBalances_SVM rpcDownEnv False ''0xa11ce'') = Inr ()
   \<and> reportedBalances (snd (fetchTokenBalances_SVM rpcDownEnv False ''0xa11ce''))
       = [[svmErrorToken]]
   \<and> fst (fetchTokenBalances_MVM rpcDownEnv False ''0xa11ce'') = Inr ()
   \<and> reportedBalances (snd (fetchTokenBalances_MVM rpcDownEnv False ''0xa11ce''))
       = [[mvmErrorToken]]
   \<and> symbol evmErrorToken = ''ERR'' \<and> balance evmErrorToken = ''0''
   \<and> symbol svmErrorToken = ''ERR'' \<and> balance svmErrorToken = ''0''
   \<and> symbol mvmErrorToken = ''ERR'' \<and> balance mvmErrorToken = ''0''"
  using fetch_failure_reports_one_ERR_token [of rpcDownEnv "''0xa11ce''"]
  by (simp add: evmFetchThrows_def svmFetchThrows_def mvmFetchThrows_def scenario_defs
      fetchTokenBalances_EVM_def fetchTokenBalances_SVM_def fetchTokenBalances_MVM_def
      windowEthereumRequest_def io_defs evmErrorToken_def svmErrorToken_def mvmErrorToken_def)

text \<open>
  C5, as the claim states it, fails: \<open>getAllMVMTokenBalances\<close> is a balance-fetching path
  on which a failure (the account lookup throws) does produce a user notification, and
  no marker record is substituted: the empty list is returned.
\<close>

theorem getAllMVMTokenBalances_failure_notifies:
  "isl (getAccount rpcDownEnv ''0xa11ce'')
   \<and> toastsOf (snd (getAllMVMTokenBalances rpcDownEnv ''0xa11ce'')) = [accountNotFound]
   \<and> fst (getAllMVMTokenBalances rpcDownEnv ''0xa11ce'') = Inr (Some [])"
  by (simp add: getAllMVMTokenBalances_def scenario_defs io_defs accountNotFound_def)

text \<open>
  C5, amended. In the three connectors' \<open>fetchTokenBalances\<close> every fetch failure is
  notification-free: the trace holds no toast, exactly one error line, and the report of
  the single marker record. The helpers of \<open>utils/wallet.ts\<close> substitute no marker record:
  \<open>getAllMVMTokenBalances\<close> shows the notification "Account Not Found" and returns the
  empty list when the account lookup fails, and shows nothing, logs one error line and
  returns the empty list when the resource fetch fails; the four single-balance helpers
  show nothing, log one error line and return the zero balance.
\<close>

theorem fetch_failure_notifications:
  "(evmFetchThrows env a \<longrightarrow>
      toastsOf (snd (fetchTokenBalances_EVM env False a)) = []
      \<and> errorLogsOf (snd (fetchTokenBalances_EVM env False a))
          = [''Error fetching EVM token balances:'']
      \<and> reportedBalances (snd (fetchTokenBalances_EVM env False a)) = [[evmErrorToken]])
   \<and> (svmFetchThrows env a \<longrightarrow>
      toastsOf (snd (fetchTokenBalances_SVM env False a)) = []
      \<and> errorLogsOf (snd (fetchTokenBalances_SVM env False a))
          = [''Error fetching Solana token balances:'']
      \<and> reportedBalances (snd (fetchTokenBalances_SVM env False a)) = [[svmErrorToken]])
   \<and> (mvmFetchThrows env a \<longrightarrow>
      toastsOf (snd (fetchTokenBalances_MVM env False a)) = []
      \<and> errorLogsOf (snd (fetchTokenBalances_MVM env False a))
          = [''Error fetching token balances:'']
      \<and> reportedBalances (snd (fetchTokenBalances_MVM env False a)) = [[mvmErrorToken]])
   \<and> (isl (getAccount env a) \<longrightarrow>
      toastsOf (snd (getAllMVMTokenBalances env a)) = [accountNotFound]
      \<and> fst (getAllMVMTokenBalances env a) = Inr (Some []))
   \<and> (\<not> isl (getAccount env a) \<and> isl (getAccountResources env a) \<longrightarrow>
      toastsOf (snd (getAllMVMTokenBalances env a)) = []
      \<and> errorLogsOf (snd (getAllMVMTokenBalances env a))
          = [''Error fetching MVM token balances:'']
      \<and> fst (getAllMVMTokenBalances env a) = Inr (Some []))
   \<and> (thrownBy (snd (getEVMBalance env a)) \<noteq> [] \<longrightarrow>
      toastsOf (snd (getEVMBalance env a)) = []
      \<and> errorLogsOf (snd (getEVMBalance env a)) = [''Error getting EVM balance:'']
      \<and> fst (getEVMBalance env a) = Inr ''0'')
   \<and> (thrownBy (snd (getERC20Balance env c a)) \<noteq> [] \<longrightarrow>
      toastsOf (snd (getERC20Balance env c a)) = []
      \<and> errorLogsOf (snd (getERC20Balance env c a)) = [''Error getting ERC20 balance:'']
      \<and> fst (getERC20Balance env c a) = Inr ''0'')
   \<and> (thrownBy (snd (getSolanaBalance env a)) \<noteq> [] \<longrightarrow>
      toastsOf (snd (getSolanaBalance env a)) = []
      \<and> errorLogsOf (snd (getSolanaBalance env a)) = [''Error getting Solana balance:'']
      \<and> fst (getSolanaBalance env a) = Inr 0)
   \<and> (thrownBy (snd (getMVMTokenBalance env a)) \<noteq> [] \<longrightarrow>
      toastsOf (snd (getMVMTokenBalance env a)) = []
      \<and> errorLogsOf (snd (getMVMTokenBalance env a)) = [''Error fetching MVM balance:'']
      \<and> fst (getMVMTokenBalance env a) = Inr ''0'')"
proof (intro conjI impI)
  assume h: "evmFetchThrows env a"
  show "toastsOf (snd (fetchTokenBalances_EVM env False a)) = []"
    and "errorLogsOf (snd (fetchTokenBalances_EVM env False a))
          = [''Error fetching EVM token balances:'']"
    and "reportedBalances (snd (fetchTokenBalances_EVM env False a)) = [[evmErrorToken]]"
    by (rule evm_failure_observed [OF h])+
next
  assume h: "svmFetchThrows env a"
  show "toastsOf (snd (fetchTokenBalances_SVM env False a)) = []"
    and "errorLogsOf (snd (fetchTokenBalances_SVM env False a))
          = [''Error fetching Solana token balances:'']"
    and "reportedBalances (snd (fetchTokenBalances_SVM env False a)) = [[svmErrorToken]]"
    by (rule svm_failure_observed [OF h])+
next
  assume h: "mvmFetchThrows env a"
  show "toastsOf (snd (fetchTokenBalances_MVM env False a)) = []"
    and "errorLogsOf (snd (fetchTokenBalances_MVM env False a))
          = [''Error fetching token balances:'']"
    and "reportedBalances (snd (fetchTokenBalances_MVM env False a)) = [[mvmErrorToken]]"
    by (rule mvm_failure_observed [OF h])+
next
  assume "isl (getAccount env a)"
  then show "toastsOf (snd (getAllMVMTokenBalances env a)) = [accountNotFound]"
    and "fst (getAllMVMTokenBalances env a) = Inr (Some [])"
    by (auto simp: getAllMVMTokenBalances_def io_defs accountNotFound_def split: sum.splits)
next
  assume "\<not> isl (getAccount env a) \<and> isl (getAccountResources env a)"
  then show "toastsOf (snd (getAllMVMTokenBalances env a)) = []"
    and "errorLogsOf (snd (getAllMVMTokenBalances env a))
          = [''Error fetching MVM token balances:'']"
    and "fst (getAllMVMTokenBalances env a) = Inr (Some [])"
    by (auto simp: getAllMVMTokenBalances_def io_defs split: sum.splits)
next
  assume "thrownBy (snd (getEVMBalance env a)) \<noteq> []"
  then show "toastsOf (snd (getEVMBalance env a)) = []"
    and "errorLogsOf (snd (getEVMBalance env a)) = [''Error getting EVM balance:'']"
    and "fst (getEVMBalance env a) = Inr ''0''"
    by (auto simp: getEVMBalance_def io_defs split: sum.splits)
next
  assume "thrownBy (snd (getERC20Balance env c a)) \<noteq> []"
  then show "toastsOf (snd (getERC20Balance env c a)) = []"
    and "errorLogsOf (snd (getERC20Balance env c a)) = [''Error getting ERC20 balance:'']"
    and "fst (getERC20Balance env c a) = Inr ''0''"
    by (auto simp: getERC20Balance_def io_defs split: sum.splits)
next
  assume "thrownBy (snd (getSolanaBalance env a)) \<noteq> []"
  then show "toastsOf (snd (getSolanaBalance env a)) = []"
    and "errorLogsOf (snd (getSolanaBalance env a)) = [''Error getting Solana balance:'']"
    and "fst (getSolanaBalance env a) = Inr 0"
    by (auto simp: getSolanaBalance_def io_defs split: sum.splits)
next
  assume "thrownBy (snd (getMVMTokenBalance env a)) \<noteq> []"
  then show "toastsOf (snd (getMVMTokenBalance env a)) = []"
    and "errorLogsOf (snd (getMVMTokenBalance env a)) = [''Error fetching MVM balance:'']"
    and "fst (getMVMTokenBalance env a) = Inr ''0''"
    by (auto simp: getMVMTokenBalance_def io_defs split: sum.splits)
qed

theorem fetch_failure_notifications_witness:
  "evmFetchThrows rpcDownEnv ''0xa11ce'' \<and> svmFetchThrows rpcDownEnv ''0xa11ce''
   \<and> mvmFetchThrows rpcDownEnv ''0xa11ce'' \<and> isl (getAccount rpcDownEnv ''0xa11ce'')
   \<and> toastsOf (snd (fetchTokenBalances_EVM rpcDownEnv False ''0xa11ce'')) = []
   \<and> toastsOf (snd (fetchTokenBalances_SVM rpcDownEnv False ''0xa11ce'')) = []
   \<and> toastsOf (snd (fetchTokenBalances_MVM rpcDownEnv False ''0xa11ce'')) = []
   \<and> errorLogsOf (snd (fetchTokenBalances_MVM rpcDownEnv False ''0xa11ce''))
        = [''Error fetching token balances:'']
   \<and> reportedBalances (snd (fetchTokenBalances_MVM rpcDownEnv False ''0xa11ce''))
        = [[mvmErrorToken]]
   \<and> toastsOf (snd (getAllMVMTokenBalances rpcDownEnv ''0xa11ce'')) = [accountNotFound]
   \<and> \<not> isl (getAccount resourcesDownEnv ''0xa11ce'')
   \<and> isl (getAccountResources resourcesDownEnv ''0xa11ce'')
   \<and> toastsOf (snd (getAllMVMTokenBalances resourcesDownEnv ''0xa11ce'')) = []
   \<and> fst (getAllMVMTokenBalances resourcesDownEnv ''0xa11ce'') = Inr (Some [])
   \<and> thrownBy (snd (getEVMBalance rpcDownEnv ''0xa11ce''))
        = [(''provider.getBalance'', rpcDown)]
   \<and> thrownBy (snd (getERC20Balance rpcDownEnv ''0xc0ffee'' ''0xa11ce''))
        = [(''tokenContract.balanceOf'', rpcDown)]
   \<and> thrownBy (snd (getSolanaBalance rpcDownEnv ''0xa11ce''))
        = [(''connection.getBalance'', rpcDown)]
   \<and> thrownBy (snd (getMVMTokenBalance rpcDownEnv ''0xa11ce''))
        = [(''coinClient.checkBalance'', rpcDown)]
   \<and> errorLogsOf (snd (getEVMBalance rpcDownEnv ''0xa11ce'')) = [''Error getting EVM balance:'']
   \<and> toastsOf (snd (getEVMBalance rpcDownEnv ''0xa11ce'')) = []"
proof -
  have g: "thrownBy (snd (getEVMBalance rpcDownEnv ''0xa11ce''))
             = [(''provider.getBalance'', rpcDown)]"
    "thrownBy (snd (getERC20Balance rpcDownEnv ''0xc0ffee'' ''0xa11ce''))
             = [(''tokenContract.balanceOf'', rpcDown)]"
    "thrownBy (snd (getSolanaBalance rpcDownEnv ''0xa11ce''))
             = [(''connection.getBalance'', rpcDown)]"
    "thrownBy (snd (getMVMTokenBalance rpcDownEnv ''0xa11ce''))
             = [(''coinClient.checkBalance'', rpcDown)]"
    by (simp_all add: getEVMBalance_def getERC20Balance_def getSolanaBalance_def
        getMVMTokenBalance_def io_defs rpcDownEnv_def happyEnv_def)
  have h: "evmFetchThrows rpcDownEnv ''0xa11ce''" "svmFetchThrows rpcDownEnv ''0xa11ce''"
    "mvmFetchThrows rpcDownEnv ''0xa11ce''" "isl (getAccount rpcDownEnv ''0xa11ce'')"
    "\<not> isl (getAccount resourcesDownEnv ''0xa11ce'')"
    "isl (getAccountResources resourcesDownEnv ''0xa11ce'')"
    by (simp_all add: evmFetchThrows_def svmFetchThrows_def mvmFetchThrows_def scenario_defs
        resourcesDownEnv_def)
  show ?thesis
    using fetch_failure_notifications [of rpcDownEnv "''0xa11ce''" "''0xc0ffee''"]
      fetch_failure_notifications [of resourcesDownEnv "''0xa11ce''" "''0xc0ffee''"]
    by (simp add: g h)
qed

text \<open>The Aptos callback always returns a token, tagged \<open>"mvm"\<close>, and reports nothing itself.\<close>

lemma coinStoreToken_total:
  "\<exists>t tr. coinStoreToken env r = (Inr t, tr) \<and> id_tok t = typeArgument (rtype r)
      \<and> (isl (metadataLookup env r) \<longrightarrow> symbol t = ''UNKNOWN'' \<and> decimals t = 8)
      \<and> chain_tok t = ''mvm''
      \<and> reportedBalances tr = [] \<and> toastsOf tr = []"
  by (auto simp: coinStoreToken_def metadataLookup_def io_defs Let_def split: sum.splits)

lemma awaitAll_coinStores:
  "\<exists>ts tr. awaitAll (map (coinStoreToken env) rs) = (Inr ts, tr)
      \<and> list_all2 (\<lambda>r t. id_tok t = typeArgument (rtype r)
            \<and> (isl (metadataLookup env r) \<longrightarrow> symbol t = ''UNKNOWN'' \<and> decimals t = 8)) rs ts
      \<and> list_all (\<lambda>t. chain_tok t = ''mvm'') ts
      \<and> reportedBalances tr = [] \<and> toastsOf tr = []"
proof (induction rs)
  case Nil
  show ?case by (simp add: io_defs)
next
  case (Cons r rs)
  from coinStoreToken_total [of env r] obtain t tr where
    h: "coinStoreToken env r = (Inr t, tr)" "id_tok t = typeArgument (rtype r)"
       "isl (metadataLookup env r) \<longrightarrow> symbol t = ''UNKNOWN'' \<and> decimals t = 8"
       "chain_tok t = ''mvm''" "reportedBalances tr = []" "toastsOf tr = []"
    by blast
  from Cons.IH obtain ts trs where
    ih: "awaitAll (map (coinStoreToken env) rs) = (Inr ts, trs)"
        "list_all2 (\<lambda>r t. id_tok t = typeArgument (rtype r)
            \<and> (isl (metadataLookup env r) \<longrightarrow> symbol t = ''UNKNOWN'' \<and> decimals t = 8)) rs ts"
        "list_all (\<lambda>t. chain_tok t = ''mvm'') ts"
        "reportedBalances trs = []" "toastsOf trs = []"
    by blast
  show ?case
    using h ih by (simp add: trace_append)
qed

text \<open>
  C6. In the Aptos balance fetch, once the resources are enumerated, the fetcher reports
  one list with exactly one token per coin-store resource, in order, identified by the
  coin type of its resource; and for every coin store whose metadata lookup throws, its
  token is there with symbol \<open>"UNKNOWN"\<close> and decimals 8. No lookup failure aborts the
  fetch or drops another coin store.
\<close>

theorem aptos_fetch_keeps_unknown_tokens:
  assumes "getAccountResources env a = Inr resources"
  shows "fst (fetchTokenBalances_MVM env False a) = Inr ()
    \<and> (\<exists>ts. reportedBalances (snd (fetchTokenBalances_MVM env False a)) = [ts]
         \<and> list_all2 (\<lambda>r t. id_tok t = typeArgument (rtype r)
              \<and> (isl (metadataLookup env r) \<longrightarrow> symbol t = ''UNKNOWN'' \<and> decimals t = 8))
             (filter isCoinStore resources) ts)"
proof -
  from awaitAll_coinStores [of env "filter isCoinStore resources"] obtain ts tr where
    h: "awaitAll (map (coinStoreToken env) (filter isCoinStore resources)) = (Inr ts, tr)"
       "list_all2 (\<lambda>r t. id_tok t = typeArgument (rtype r)
            \<and> (isl (metadataLookup env r) \<longrightarrow> symbol t = ''UNKNOWN'' \<and> decimals t = 8))
          (filter isCoinStore resources) ts"
       "reportedBalances tr = []"
    by blast
  show ?thesis
    using assms h by (simp add: fetchTokenBalances_MVM_def io_defs trace_append)
qed

lemma lookup_foo_throws: "isl (metadataLookup fooMetadataDownEnv fooStore)"
  by (simp add: metadataLookup_def fooMetadataDownEnv_def fooStore_def aptStore_def accountResource_def typeArgument_foo)

lemma lookup_apt_returns: "\<not> isl (metadataLookup fooMetadataDownEnv aptStore)"
  by (simp add: metadataLookup_def fooMetadataDownEnv_def fooStore_def aptStore_def accountResource_def typeArgument_apt)

lemma fooMetadataDown_report:
  "reportedBalances (snd (fetchTokenBalances_MVM fooMetadataDownEnv False ''0xa11ce'')) =
       [[\<lparr>id_tok = ''0xf00::foo::Foo'', symbol = ''UNKNOWN'', name = ''Unknown Token'',
          balance = ''7'', decimals = 8, address = ''0xf00::foo::Foo'', chain_tok = ''mvm'',
          logoURI = [], priceUSD = ''0''\<rparr>,
         \<lparr>id_tok = ''0x1::aptos_coin::AptosCoin'', symbol = ''APT'', name = ''Aptos Coin'',
          balance = ''100'', decimals = 8, address = ''0x1::aptos_coin::AptosCoin'',
          chain_tok = ''mvm'', logoURI = [], priceUSD = ''0''\<rparr>]]"
  by (simp add: fetchTokenBalances_MVM_def coinStoreToken_def io_defs fooMetadataDownEnv_def
      happyEnv_def fooStore_def aptStore_def accountResource_def isCoinStore_def startsWith_def typeArgument_foo
      typeArgument_apt Let_def)

theorem aptos_fetch_keeps_unknown_tokens_witness:
  "getAccountResources fooMetadataDownEnv ''0xa11ce'' = Inr [fooStore, accountResource, aptStore]
   \<and> filter isCoinStore [fooStore, accountResource, aptStore] = [fooStore, aptStore]
   \<and> isl (metadataLookup fooMetadataDownEnv fooStore)
   \<and> \<not> isl (metadataLookup fooMetadataDownEnv aptStore)
   \<and> fst (fetchTokenBalances_MVM fooMetadataDownEnv False ''0xa11ce'') = Inr ()
   \<and> reportedBalances (snd (fetchTokenBalances_MVM fooMetadataDownEnv False ''0xa11ce'')) =
       [[\<lparr>id_tok = ''0xf00::foo::Foo'', symbol = ''UNKNOWN'', name = ''Unknown Token'',
          balance = ''7'', decimals = 8, address = ''0xf00::foo::Foo'', chain_tok = ''mvm'',
          logoURI = [], priceUSD = ''0''\<rparr>,
         \<lparr>id_tok = ''0x1::aptos_coin::AptosCoin'', symbol = ''APT'', name = ''Aptos Coin'',
          balance = ''100'', decimals = 8, address = ''0x1::aptos_coin::AptosCoin'',
          chain_tok = ''mvm'', logoURI = [], priceUSD = ''0''\<rparr>]]"
proof -
  have a: "getAccountResources fooMetadataDownEnv ''0xa11ce''
             = Inr [fooStore, accountResource, aptStore]"
    by (simp add: fooMetadataDownEnv_def)
  have b: "filter isCoinStore [fooStore, accountResource, aptStore] = [fooStore, aptStore]"
    by (simp add: isCoinStore_def startsWith_def fooStore_def aptStore_def accountResource_def)
  show ?thesis
    using aptos_fetch_keeps_unknown_tokens [OF a] a b lookup_foo_throws lookup_apt_returns
      fooMetadataDown_report
    by simp
qed

text \<open>
  Every token the Solana and Aptos connectors report, marker included, carries the tag its
  connector is mounted with, so the next update of that connector removes it.
\<close>

lemma svm_reports_tagged:
  "list_all (list_all (\<lambda>t. chain_tok t = ''svm''))
     (reportedBalances (snd (fetchTokenBalances_SVM env fetching a)))"
  by (auto simp: fetchTokenBalances_SVM_def io_defs split: sum.splits)

lemma mvm_reports_tagged:
  "list_all (list_all (\<lambda>t. chain_tok t = ''mvm''))
     (reportedBalances (snd (fetchTokenBalances_MVM env fetching a)))"
proof (cases fetching)
  case True
  then show ?thesis by (simp add: fetchTokenBalances_MVM_def io_defs)
next
  case False
  show ?thesis
  proof (cases "getAccountResources env a")
    case (Inl e)
    then have "mvmFetchThrows env a" by (simp add: mvmFetchThrows_def)
    from mvm_failure_observed(4) [OF this] show ?thesis
      using False by (simp add: mvmErrorToken_def)
  next
    case (Inr resources)
    from awaitAll_coinStores [of env "filter isCoinStore resources"] obtain ts tr where
      h: "awaitAll (map (coinStoreToken env) (filter isCoinStore resources)) = (Inr ts, tr)"
         "list_all (\<lambda>t. chain_tok t = ''mvm'') ts" "reportedBalances tr = []"
      by blast
    show ?thesis
      using False Inr h by (simp add: fetchTokenBalances_MVM_def io_defs trace_append)
  qed
qed

lemma svm_reports_replaced:
  assumes "ts \<in> set (reportedBalances (snd (fetchTokenBalances_SVM env fetching a)))"
    and "t \<in> set ts" and "t \<in> set (handleSetTokenBalances tokens ''svm'' prev)"
  shows "t \<in> set tokens"
proof -
  have "chain_tok t = ''svm''"
    using svm_reports_tagged [of env fetching a] assms(1,2) by (auto simp: list_all_iff)
  with assms(3) show ?thesis by (rule handleSetTokenBalances_replaces_tagged)
qed

lemma mvm_reports_replaced:
  assumes "ts \<in> set (reportedBalances (snd (fetchTokenBalances_MVM env fetching a)))"
    and "t \<in> set ts" and "t \<in> set (handleSetTokenBalances tokens ''mvm'' prev)"
  shows "t \<in> set tokens"
proof -
  have "chain_tok t = ''mvm''"
    using mvm_reports_tagged [of env fetching a] assms(1,2) by (auto simp: list_all_iff)
  with assms(3) show ?thesis by (rule handleSetTokenBalances_replaces_tagged)
qed

text \<open>
  C2. The claim holds for every token that carries its connector's chain tag, and the
  code breaks it for the EVM connector's own error marker, which is tagged
  \<open>"ethereum"\<close> while the connector is mounted with the tag \<open>"evm"\<close>. After a failed EVM
  fetch followed by a successful one, the marker reported by the first is still in the
  aggregate list next to the token of the second; even the empty update of a disconnect
  leaves it there.
\<close>

theorem evm_error_token_survives_update:
  "reportedBalances (snd (fetchTokenBalances_EVM rpcDownEnv False ''0xabc'')) = [[evmErrorToken]]
   \<and> reportedBalances (snd (fetchTokenBalances_EVM happyEnv False ''0xabc'')) = [[celoToken]]
   \<and> deliver ''evm'' (snd (fetchTokenBalances_EVM happyEnv False ''0xabc''))
        (deliver ''evm'' (snd (fetchTokenBalances_EVM rpcDownEnv False ''0xabc'')) [])
      = [evmErrorToken, celoToken]
   \<and> handleSetTokenBalances [] ''evm'' [evmErrorToken, celoToken] = [evmErrorToken]"
  by (simp add: fetchTokenBalances_EVM_def windowEthereumRequest_def io_defs scenario_defs
      handleSetTokenBalances_def evmErrorToken_def celoToken_def)

section \<open>Properties of the balance helpers\<close>

text \<open>
  C9, as the claim states it, fails for the two helpers that format with ethers. A
  balance of zero is rendered by \<open>ethers.formatEther\<close> and \<open>ethers.formatUnits\<close> (18
  decimals) as \<open>"0.0"\<close>, while the \<open>catch\<close> blocks return \<open>"0"\<close>: at the interface of
  \<open>getEVMBalance\<close> and \<open>getERC20Balance\<close> a failed fetch and a genuinely empty account give
  two different strings.
\<close>

theorem failed_fetch_differs_from_zero_balance:
  "rpcGetBalance zeroBalanceEnv CELO_RPC_URL ''0xa11ce'' = Inr 0
   \<and> getEVMBalance zeroBalanceEnv ''0xa11ce''
       = (Inr ''0.0'', [Sdk ''provider.getBalance'' None])
   \<and> getEVMBalance rpcDownEnv ''0xa11ce''
       = (Inr ''0'', [Sdk ''provider.getBalance'' (Some rpcDown),
                      ConsoleError ''Error getting EVM balance:''])
   \<and> fst (getEVMBalance rpcDownEnv ''0xa11ce'') \<noteq> fst (getEVMBalance zeroBalanceEnv ''0xa11ce'')
   \<and> erc20BalanceOf zeroBalanceEnv ''0xc0ffee'' ''0xa11ce'' = Inr 0
   \<and> erc20Decimals zeroBalanceEnv ''0xc0ffee'' = Inr 18
   \<and> getERC20Balance zeroBalanceEnv ''0xc0ffee'' ''0xa11ce''
       = (Inr ''0.0'', [Sdk ''new ethers.Contract'' None, Sdk ''tokenContract.balanceOf'' None,
                        Sdk ''tokenContract.decimals'' None])
   \<and> getERC20Balance rpcDownEnv ''0xc0ffee'' ''0xa11ce''
       = (Inr ''0'', [Sdk ''new ethers.Contract'' None,
                      Sdk ''tokenContract.balanceOf'' (Some rpcDown),
                      ConsoleError ''Error getting ERC20 balance:''])
   \<and> fst (getERC20Balance rpcDownEnv ''0xc0ffee'' ''0xa11ce'')
       \<noteq> fst (getERC20Balance zeroBalanceEnv ''0xc0ffee'' ''0xa11ce'')"
  by (simp add: getEVMBalance_def getERC20Balance_def io_defs scenario_defs zeroBalanceEnv_def)

text \<open>
  C9, amended. \<open>getEVMBalance\<close>, \<open>getERC20Balance\<close>, \<open>getSolanaBalance\<close> and
  \<open>getMVMTokenBalance\<close> never throw and show no notification, and whenever a call they
  make throws they return the zero balance: the string \<open>"0"\<close> (which reads as the number
  0) or, for \<open>getSolanaBalance\<close>, the number 0. For \<open>getSolanaBalance\<close> and
  \<open>getMVMTokenBalance\<close> a failed fetch returns exactly what a fetch of a genuinely zero
  balance returns, in whatever environment and for whatever account the two are made.
  For \<open>getEVMBalance\<close> and \<open>getERC20Balance\<close> a genuinely zero balance returns the
  formatter's rendering of zero, and a failed fetch returns the same value exactly when
  that rendering is the string \<open>"0"\<close>.
\<close>

theorem balance_helpers_zero_on_error:
  "(\<exists>v. fst (getEVMBalance env a) = Inr v)
   \<and> (thrownBy (snd (getEVMBalance env a)) \<noteq> [] \<longrightarrow> fst (getEVMBalance env a) = Inr ''0'')
   \<and> toastsOf (snd (getEVMBalance env a)) = []
   \<and> (\<exists>v. fst (getERC20Balance env c a) = Inr v)
   \<and> (thrownBy (snd (getERC20Balance env c a)) \<noteq> []
        \<longrightarrow> fst (getERC20Balance env c a) = Inr ''0'')
   \<and> toastsOf (snd (getERC20Balance env c a)) = []
   \<and> (\<exists>v. fst (getSolanaBalance env a) = Inr v)
   \<and> (thrownBy (snd (getSolanaBalance env a)) \<noteq> []
        \<longrightarrow> fst (getSolanaBalance env a) = Inr 0)
   \<and> toastsOf (snd (getSolanaBalance env a)) = []
   \<and> (\<exists>v. fst (getMVMTokenBalance env a) = Inr v)
   \<and> (thrownBy (snd (getMVMTokenBalance env a)) \<noteq> []
        \<longrightarrow> fst (getMVMTokenBalance env a) = Inr ''0'')
   \<and> toastsOf (snd (getMVMTokenBalance env a)) = []
   \<and> parseFloat ''0'' = Fin 0
   \<and> (newPublicKey env' a' = Inr k \<and> solGetBalance env' k = Inr 0
        \<longrightarrow> getSolanaBalance env' a'
              = (Inr 0, [Sdk ''new PublicKey'' None, Sdk ''connection.getBalance'' None])
            \<and> (thrownBy (snd (getSolanaBalance env a)) \<noteq> []
                 \<longrightarrow> fst (getSolanaBalance env a) = fst (getSolanaBalance env' a')))
   \<and> (checkBalance env' a' = Inr 0
        \<longrightarrow> getMVMTokenBalance env' a' = (Inr ''0'', [Sdk ''coinClient.checkBalance'' None])
            \<and> (thrownBy (snd (getMVMTokenBalance env a)) \<noteq> []
                 \<longrightarrow> fst (getMVMTokenBalance env a) = fst (getMVMTokenBalance env' a')))
   \<and> (rpcGetBalance env' CELO_RPC_URL a' = Inr 0
        \<longrightarrow> getEVMBalance env' a'
              = (Inr (formatEther env' 0), [Sdk ''provider.getBalance'' None])
            \<and> (thrownBy (snd (getEVMBalance env a)) \<noteq> []
                 \<longrightarrow> (fst (getEVMBalance env a) = fst (getEVMBalance env' a'))
                       = (formatEther env' 0 = ''0'')))
   \<and> (newContract env' c' = Inr u \<and> erc20BalanceOf env' c' a' = Inr 0
        \<and> erc20Decimals env' c' = Inr d
        \<longrightarrow> getERC20Balance env' c' a'
              = (Inr (formatUnits env' 0 d),
                 [Sdk ''new ethers.Contract'' None, Sdk ''tokenContract.balanceOf'' None,
                  Sdk ''tokenContract.decimals'' None])
            \<and> (thrownBy (snd (getERC20Balance env c a)) \<noteq> []
                 \<longrightarrow> (fst (getERC20Balance env c a) = fst (getERC20Balance env' c' a'))
                       = (formatUnits env' 0 d = ''0'')))"
proof -
  have evm: "\<exists>v t. getEVMBalance env a = (Inr v, t) \<and> (thrownBy t \<noteq> [] \<longrightarrow> v = ''0'')
               \<and> toastsOf t = []"
    by (simp add: getEVMBalance_def io_defs split: sum.splits)
  have erc: "\<exists>v t. getERC20Balance env c a = (Inr v, t) \<and> (thrownBy t \<noteq> [] \<longrightarrow> v = ''0'')
               \<and> toastsOf t = []"
    by (simp add: getERC20Balance_def io_defs split: sum.splits)
  have sol: "\<exists>v t. getSolanaBalance env a = (Inr v, t) \<and> (thrownBy t \<noteq> [] \<longrightarrow> v = 0)
               \<and> toastsOf t = []"
    by (simp add: getSolanaBalance_def io_defs split: sum.splits)
  have mvm: "\<exists>v t. getMVMTokenBalance env a = (Inr v, t) \<and> (thrownBy t \<noteq> [] \<longrightarrow> v = ''0'')
               \<and> toastsOf t = []"
    by (simp add: getMVMTokenBalance_def io_defs split: sum.splits)
  have sol0: "newPublicKey env' a' = Inr k \<and> solGetBalance env' k = Inr 0
               \<longrightarrow> getSolanaBalance env' a'
                     = (Inr 0, [Sdk ''new PublicKey'' None, Sdk ''connection.getBalance'' None])"
    by (simp add: getSolanaBalance_def io_defs)
  have mvm0: "checkBalance env' a' = Inr 0
               \<longrightarrow> getMVMTokenBalance env' a'
                     = (Inr ''0'', [Sdk ''coinClient.checkBalance'' None])"
    by (simp add: getMVMTokenBalance_def io_defs)
  have evm0: "rpcGetBalance env' CELO_RPC_URL a' = Inr 0
               \<longrightarrow> getEVMBalance env' a'
                     = (Inr (formatEther env' 0), [Sdk ''provider.getBalance'' None])"
    by (simp add: getEVMBalance_def io_defs)
  have erc0: "newContract env' c' = Inr u \<and> erc20BalanceOf env' c' a' = Inr 0
               \<and> erc20Decimals env' c' = Inr d
               \<longrightarrow> getERC20Balance env' c' a'
                     = (Inr (formatUnits env' 0 d),
                        [Sdk ''new ethers.Contract'' None, Sdk ''tokenContract.balanceOf'' None,
                         Sdk ''tokenContract.decimals'' None])"
    by (simp add: getERC20Balance_def io_defs)
  from evm obtain v1 t1 where e1: "getEVMBalance env a = (Inr v1, t1)"
    "thrownBy t1 \<noteq> [] \<longrightarrow> v1 = ''0''" "toastsOf t1 = []" by blast
  from erc obtain v2 t2 where e2: "getERC20Balance env c a = (Inr v2, t2)"
    "thrownBy t2 \<noteq> [] \<longrightarrow> v2 = ''0''" "toastsOf t2 = []" by blast
  from sol obtain v3 t3 where e3: "getSolanaBalance env a = (Inr v3, t3)"
    "thrownBy t3 \<noteq> [] \<longrightarrow> v3 = 0" "toastsOf t3 = []" by blast
  from mvm obtain v4 t4 where e4: "getMVMTokenBalance env a = (Inr v4, t4)"
    "thrownBy t4 \<noteq> [] \<longrightarrow> v4 = ''0''" "toastsOf t4 = []" by blast
  have total: "(\<exists>v. fst (getEVMBalance env a) = Inr v)
      \<and> (thrownBy (snd (getEVMBalance env a)) \<noteq> [] \<longrightarrow> fst (getEVMBalance env a) = Inr ''0'')
      \<and> toastsOf (snd (getEVMBalance env a)) = []
      \<and> (\<exists>v. fst (getERC20Balance env c a) = Inr v)
      \<and> (thrownBy (snd (getERC20Balance env c a)) \<noteq> []
           \<longrightarrow> fst (getERC20Balance env c a) = Inr ''0'')
      \<and> toastsOf (snd (getERC20Balance env c a)) = []
      \<and> (\<exists>v. fst (getSolanaBalance env a) = Inr v)
      \<and> (thrownBy (snd (getSolanaBalance env a)) \<noteq> []
           \<longrightarrow> fst (getSolanaBalance env a) = Inr 0)
      \<and> toastsOf (snd (getSolanaBalance env a)) = []
      \<and> (\<exists>v. fst (getMVMTokenBalance env a) = Inr v)
      \<and> (thrownBy (snd (getMVMTokenBalance env a)) \<noteq> []
           \<longrightarrow> fst (getMVMTokenBalance env a) = Inr ''0'')
      \<and> toastsOf (snd (getMVMTokenBalance env a)) = []"
    using e1 e2 e3 e4 by simp
  have solEq: "newPublicKey env' a' = Inr k \<and> solGetBalance env' k = Inr 0
        \<longrightarrow> getSolanaBalance env' a'
              = (Inr 0, [Sdk ''new PublicKey'' None, Sdk ''connection.getBalance'' None])
            \<and> (thrownBy (snd (getSolanaBalance env a)) \<noteq> []
                 \<longrightarrow> fst (getSolanaBalance env a) = fst (getSolanaBalance env' a'))"
    using e3 sol0 by simp
  have mvmEq: "checkBalance env' a' = Inr 0
        \<longrightarrow> getMVMTokenBalance env' a' = (Inr ''0'', [Sdk ''coinClient.checkBalance'' None])
            \<and> (thrownBy (snd (getMVMTokenBalance env a)) \<noteq> []
                 \<longrightarrow> fst (getMVMTokenBalance env a) = fst (getMVMTokenBalance env' a'))"
    using e4 mvm0 by simp
  have evmEq: "rpcGetBalance env' CELO_RPC_URL a' = Inr 0
        \<longrightarrow> getEVMBalance env' a'
              = (Inr (formatEther env' 0), [Sdk ''provider.getBalance'' None])
            \<and> (thrownBy (snd (getEVMBalance env a)) \<noteq> []
                 \<longrightarrow> (fst (getEVMBalance env a) = fst (getEVMBalance env' a'))
                       = (formatEther env' 0 = ''0''))"
    using e1 evm0 by (auto simp del: One_nat_def)
  have ercEq: "newContract env' c' = Inr u \<and> erc20BalanceOf env' c' a' = Inr 0
        \<and> erc20Decimals env' c' = Inr d
        \<longrightarrow> getERC20Balance env' c' a'
              = (Inr (formatUnits env' 0 d),
                 [Sdk ''new ethers.Contract'' None, Sdk ''tokenContract.balanceOf'' None,
                  Sdk ''tokenContract.decimals'' None])
            \<and> (thrownBy (snd (getERC20Balance env c a)) \<noteq> []
                 \<longrightarrow> (fst (getERC20Balance env c a) = fst (getERC20Balance env' c' a'))
                       = (formatUnits env' 0 d = ''0''))"
    using e2 erc0 by (auto simp del: One_nat_def)
  show ?thesis
    by (intro conjI total [THEN conjunct1] parseFloat_0 solEq mvmEq evmEq ercEq) (use total in blast)+
qed

theorem balance_helpers_zero_on_error_witness:
  "thrownBy (snd (getEVMBalance rpcDownEnv ''0xa11ce''))
     = [(''provider.getBalance'', rpcDown)]
   \<and> fst (getEVMBalance rpcDownEnv ''0xa11ce'') = Inr ''0''
   \<and> thrownBy (snd (getERC20Balance rpcDownEnv ''0xc0ffee'' ''0xa11ce''))
     = [(''tokenContract.balanceOf'', rpcDown)]
   \<and> fst (getERC20Balance rpcDownEnv ''0xc0ffee'' ''0xa11ce'') = Inr ''0''
   \<and> thrownBy (snd (getSolanaBalance rpcDownEnv ''0xa11ce''))
     = [(''connection.getBalance'', rpcDown)]
   \<and> fst (getSolanaBalance rpcDownEnv ''0xa11ce'') = Inr 0
   \<and> thrownBy (snd (getMVMTokenBalance rpcDownEnv ''0xa11ce''))
     = [(''coinClient.checkBalance'', rpcDown)]
   \<and> fst (getMVMTokenBalance rpcDownEnv ''0xa11ce'') = Inr ''0''
   \<and> newPublicKey zeroBalanceEnv ''0xb0b'' = Inr ''0xb0b''
   \<and> solGetBalance zeroBalanceEnv ''0xb0b'' = Inr 0
   \<and> fst (getSolanaBalance rpcDownEnv ''0xa11ce'') = fst (getSolanaBalance zeroBalanceEnv ''0xb0b'')
   \<and> checkBalance zeroBalanceEnv ''0xb0b'' = Inr 0
   \<and> fst (getMVMTokenBalance rpcDownEnv ''0xa11ce'')
       = fst (getMVMTokenBalance zeroBalanceEnv ''0xb0b'')
   \<and> rpcGetBalance zeroBalanceEnv CELO_RPC_URL ''0xb0b'' = Inr 0
   \<and> formatEther zeroBalanceEnv 0 = ''0.0''
   \<and> fst (getEVMBalance rpcDownEnv ''0xa11ce'') \<noteq> fst (getEVMBalance zeroBalanceEnv ''0xb0b'')
   \<and> newContract zeroBalanceEnv ''0xc0ffee'' = Inr ()
   \<and> erc20BalanceOf zeroBalanceEnv ''0xc0ffee'' ''0xb0b'' = Inr 0
   \<and> erc20Decimals zeroBalanceEnv ''0xc0ffee'' = Inr 18
   \<and> formatUnits zeroBalanceEnv 0 18 = ''0.0''
   \<and> fst (getERC20Balance rpcDownEnv ''0xc0ffee'' ''0xa11ce'')
       \<noteq> fst (getERC20Balance zeroBalanceEnv ''0xc0ffee'' ''0xb0b'')"
proof -
  have h: "thrownBy (snd (getEVMBalance rpcDownEnv ''0xa11ce''))
             = [(''provider.getBalance'', rpcDown)]"
    "thrownBy (snd (getERC20Balance rpcDownEnv ''0xc0ffee'' ''0xa11ce''))
             = [(''tokenContract.balanceOf'', rpcDown)]"
    "thrownBy (snd (getSolanaBalance rpcDownEnv ''0xa11ce''))
             = [(''connection.getBalance'', rpcDown)]"
    "thrownBy (snd (getMVMTokenBalance rpcDownEnv ''0xa11ce''))
             = [(''coinClient.checkBalance'', rpcDown)]"
    "newPublicKey zeroBalanceEnv ''0xb0b'' = Inr ''0xb0b''"
    "solGetBalance zeroBalanceEnv ''0xb0b'' = Inr 0"
    "checkBalance zeroBalanceEnv ''0xb0b'' = Inr 0"
    "rpcGetBalance zeroBalanceEnv CELO_RPC_URL ''0xb0b'' = Inr 0"
    "formatEther zeroBalanceEnv 0 = ''0.0''"
    "newContract zeroBalanceEnv ''0xc0ffee'' = Inr ()"
    "erc20BalanceOf zeroBalanceEnv ''0xc0ffee'' ''0xb0b'' = Inr 0"
    "erc20Decimals zeroBalanceEnv ''0xc0ffee'' = Inr 18"
    "formatUnits zeroBalanceEnv 0 18 = ''0.0''"
    by (simp_all add: getEVMBalance_def getERC20Balance_def getSolanaBalance_def
        getMVMTokenBalance_def io_defs scenario_defs zeroBalanceEnv_def)
  show ?thesis
    using balance_helpers_zero_on_error
      [of rpcDownEnv "''0xa11ce''" "''0xc0ffee''" zeroBalanceEnv "''0xb0b''" "''0xb0b''"
          "''0xc0ffee''" "()" 18]
    by (simp add: h)
qed


text \<open>
  C10. \<open>getAllMVMTokenBalances\<close> never returns a non-empty token list. If the account
  lookup fails it shows the notification "Account Not Found" and returns the empty list;
  if the resource fetch fails it logs the error and returns the empty list; if both calls
  succeed it returns no value at all (the resources are fetched and dropped).
\<close>

theorem getAllMVMTokenBalances_never_nonempty:
  "getAllMVMTokenBalances env walletAddress =
     (case getAccount env walletAddress of
        Inl e \<Rightarrow>
          (Inr (Some []),
           [Sdk ''client.getAccount'' (Some e),
            Toast \<lparr>title = ''Account Not Found'',
                    description = ''This Aptos address does not exist on chain. Please fund it with a small amount of APT to activate.'',
                    variant = Destructive\<rparr>])
      | Inr u \<Rightarrow>
          (case getAccountResources env walletAddress of
             Inl e \<Rightarrow>
               (Inr (Some []),
                [Sdk ''client.getAccount'' None,
                 Sdk ''client.getAccountResources'' (Some e),
                 ConsoleError ''Error fetching MVM token balances:''])
           | Inr resources \<Rightarrow>
               (Inr None,
                [Sdk ''client.getAccount'' None, Sdk ''client.getAccountResources'' None])))
   \<and> (\<forall>t ts. fst (getAllMVMTokenBalances env walletAddress) \<noteq> Inr (Some (t # ts)))"
  by (auto simp: getAllMVMTokenBalances_def io_defs split: sum.splits)


section \<open>Properties of the transfers\<close>

text \<open>
  C1. For every \<open>TransferParams\<close> whose \<open>token.chain\<close> is none of \<open>"evm"\<close>, \<open>"svm"\<close>, \<open>"mvm"\<close>,
  \<open>transferTokens\<close> returns \<open>false\<close>, its only effect is the destructive notification
  "Unsupported chain", and no extension or SDK call is made, whatever the environment:
  none of the three transfer routines runs.
\<close>

theorem transferTokens_unsupported_chain:
  assumes "chain_tok (token params) \<noteq> ''evm''"
    and "chain_tok (token params) \<noteq> ''svm''"
    and "chain_tok (token params) \<noteq> ''mvm''"
  shows "transferTokens env params =
           (Inr False, [Toast \<lparr>title = ''Error'', description = ''Unsupported chain'',
                                variant = Destructive\<rparr>])
       \<and> sdkCallsOf (snd (transferTokens env params)) = []"
  using assms by (simp add: transferTokens_def io_defs)

theorem transferTokens_unsupported_chain_witness:
  "chain_tok (token btcTransferParams) \<noteq> ''evm''
   \<and> chain_tok (token btcTransferParams) \<noteq> ''svm''
   \<and> chain_tok (token btcTransferParams) \<noteq> ''mvm''
   \<and> transferTokens happyEnv btcTransferParams =
        (Inr False, [Toast \<lparr>title = ''Error'', description = ''Unsupported chain'',
                             variant = Destructive\<rparr>])
   \<and> sdkCallsOf (snd (transferTokens happyEnv btcTransferParams)) = []"
  using transferTokens_unsupported_chain [of btcTransferParams happyEnv]
  by (simp add: btcTransferParams_def btcToken_def)

text \<open>
  C7. A transfer of a token of chain \<open>"svm"\<close> with amount \<open>"3.0"\<close>, when the wallet is
  connected (or connects on request) and the chain reports a balance of 2.5 SOL
  (2500000000 lamports): the balance check fails, \<open>transferTokens\<close> returns \<open>false\<close> with
  the notification "Insufficient Balance", and the only calls made are the optional
  \<open>connect\<close> and the balance query; no transfer instruction is built and nothing is signed
  or sent.
\<close>

theorem transferSOL_insufficient_balance:
  assumes "windowSolana env = Some solana"
    and "isConnected solana \<or> solConnect env = Inr ()"
    and "solGetBalance env (publicKey solana) = Inr 2500000000"
    and "chain_tok (token params) = ''svm''"
    and "amount params = ''3.0''"
  shows "fst (transferTokens env params) = Inr False
       \<and> toastsOf (snd (transferTokens env params)) =
           [\<lparr>title = ''Insufficient Balance'', description = ''You need at least 3.0 SOL.'',
             variant = Destructive\<rparr>]
       \<and> sdkCallsOf (snd (transferTokens env params)) =
           (if isConnected solana then [] else [''solana.connect'']) @ [''connection.getBalance'']"
  using assms
  by (auto simp: transferTokens_def transferSOL_def io_defs parseFloat_3 mulNum_def
      LAMPORTS_PER_SOL_def Let_def)

theorem transferSOL_insufficient_balance_witness:
  "windowSolana happyEnv = Some \<lparr>isConnected = True, publicKey = ''PayerKey''\<rparr>
   \<and> solGetBalance happyEnv ''PayerKey'' = Inr 2500000000
   \<and> chain_tok (token solTransferParams) = ''svm''
   \<and> decimals (token solTransferParams) = 9
   \<and> amount solTransferParams = ''3.0''
   \<and> fst (transferTokens happyEnv solTransferParams) = Inr False
   \<and> toastsOf (snd (transferTokens happyEnv solTransferParams)) =
        [\<lparr>title = ''Insufficient Balance'', description = ''You need at least 3.0 SOL.'',
          variant = Destructive\<rparr>]
   \<and> sdkCallsOf (snd (transferTokens happyEnv solTransferParams)) = [''connection.getBalance'']"
  using transferSOL_insufficient_balance
          [of happyEnv "\<lparr>isConnected = True, publicKey = ''PayerKey''\<rparr>" solTransferParams]
  by (simp add: happyEnv_def solTransferParams_def solToken_def)

text \<open>Monad laws used to bring a routine's body into a chain of single steps.\<close>

lemma bindIO_Inr: "bindIO (Inr x, p) k = prepend p (k x)"
  by (simp add: bindIO_def prepend_def split: prod.splits)

lemma bindIO_assoc: "bindIO (bindIO m f) g = bindIO m (\<lambda>x. bindIO (f x) g)"
  by (cases m) (auto simp: bindIO_def split: sum.splits prod.splits)

lemma seqIO_bindIO: "seqIO (bindIO m f) k = bindIO m (\<lambda>x. seqIO (f x) k)"
  by (simp add: seqIO_def bindIO_assoc)

lemma seqIO_seqIO: "seqIO (seqIO m n) k = seqIO m (seqIO n k)"
  by (simp add: seqIO_def bindIO_assoc)

lemma seqIO_if: "seqIO (if c then m else n) k = (if c then seqIO m k else seqIO n k)"
  by simp

text \<open>The invariant is kept by every kind of step a \<open>try\<close> block is made of.\<close>

lemma wb_mono:
  assumes "wellBehaved R m" and "\<And>ths. R ths \<Longrightarrow> R' ths"
  shows "wellBehaved R' m"
  using assms by (cases m) (auto simp: wellBehaved_def split: sum.splits)

lemma wb_prepend:
  assumes "\<not> notifiesFailure p" and "wellBehaved (\<lambda>ths. R (thrownBy p @ ths)) m"
  shows "wellBehaved R (prepend p m)"
  using assms
  by (cases m) (auto simp: wellBehaved_def prepend_def notifiesFailure_append thrownBy_append
      split: sum.splits)

lemma wb_bind_sdk:
  assumes "\<And>x. a = Inr x \<Longrightarrow> wellBehaved R (k x)"
  shows "wellBehaved R (bindIO (sdk f a) k)"
proof (cases a)
  case (Inl e)
  then show ?thesis by (simp add: io_defs wellBehaved_def notifiesFailure_def)
next
  case (Inr x)
  have "bindIO (sdk f a) k = prepend [Sdk f None] (k x)"
    using Inr by (simp add: sdk_def bindIO_Inr)
  moreover have "wellBehaved R (prepend [Sdk f None] (k x))"
    using assms [OF Inr] by (intro wb_prepend) (simp_all add: notifiesFailure_def)
  ultimately show ?thesis by simp
qed

lemma wb_seq_sdk:
  assumes "wellBehaved R k"
  shows "wellBehaved R (seqIO (sdk f a) k)"
  unfolding seqIO_def using assms by (intro wb_bind_sdk)

lemma wb_seq_log:
  assumes "wellBehaved R k"
  shows "wellBehaved R (seqIO (emit (ConsoleLog s)) k)"
proof -
  have "seqIO (emit (ConsoleLog s)) k = prepend [ConsoleLog s] k"
    by (simp add: seqIO_def emit_def bindIO_Inr)
  moreover have "wellBehaved R (prepend [ConsoleLog s] k)"
    using assms by (intro wb_prepend) (simp_all add: notifiesFailure_def)
  ultimately show ?thesis by simp
qed

lemma wb_seq_ret:
  assumes "wellBehaved R k"
  shows "wellBehaved R (seqIO (ret x) k)"
  using assms by (cases k) (simp add: io_defs)

lemma wb_seq_if_sdk:
  assumes "wellBehaved R k"
  shows "wellBehaved R (seqIO (if c then sdk f a else ret ()) k)"
  using assms by (cases c) (simp_all add: wb_seq_sdk wb_seq_ret)

lemma wb_fail:
  assumes "variant n = Destructive"
  shows "wellBehaved R (seqIO (toast n) (ret False))"
  using assms by (simp add: io_defs wellBehaved_def notifiesFailure_def)

lemma wb_success:
  assumes "variant n = Default" and "R []"
  shows "wellBehaved R (seqIO (toast n) (ret True))"
  using assms by (simp add: io_defs wellBehaved_def notifiesFailure_def)

lemma wb_if:
  assumes "c \<Longrightarrow> wellBehaved R m" and "\<not> c \<Longrightarrow> wellBehaved R n"
  shows "wellBehaved R (if c then m else n)"
  using assms by simp

lemmas wb_rules = wb_bind_sdk wb_seq_sdk wb_seq_log wb_seq_ret wb_seq_if_sdk wb_fail
  wb_success wb_if

text \<open>The \<open>catch\<close> block of a transfer routine turns a well-behaved \<open>try\<close> block into a boolean.\<close>

lemma wb_catch:
  assumes "wellBehaved R m"
  shows "\<exists>b t. tryCatch m transferFailed = (Inr b, t) \<and> b = (\<not> notifiesFailure t)
            \<and> (if b then R (thrownBy t) else True)"
proof (cases m)
  case (Pair r t)
  show ?thesis
  proof (cases r)
    case (Inl e)
    then show ?thesis using Pair assms
      by (auto simp: io_defs transferFailed_def wellBehaved_def notifiesFailure_def
          trace_append)
  next
    case (Inr b)
    then show ?thesis using Pair assms
      by (simp add: io_defs wellBehaved_def)
  qed
qed

lemma transferSOL_outcome:
  "\<exists>b t. transferSOL env recipient amt = (Inr b, t) \<and> b = (\<not> notifiesFailure t)
            \<and> (if b then thrownBy t = [] else True)"
  unfolding transferSOL_def Let_def
  by (rule wb_catch) (auto intro!: wb_rules split: option.splits)

lemma transferMVMToken_outcome:
  "\<exists>b t. transferMVMToken env tok recipient amt = (Inr b, t) \<and> b = (\<not> notifiesFailure t)
            \<and> (if b then thrownBy t = [] else True)"
  unfolding transferMVMToken_def Let_def
  by (rule wb_catch) (auto intro!: wb_rules)

text \<open>
  The network switch either throws (reading \<open>code\<close> of a nullish thrown value), or returns
  \<open>false\<close> from the routine after a destructive toast, or lets the transfer go on, and
  then either no call threw or the only one that threw is the first switch, with code 4902.
\<close>

lemma switchToCelo_outcome:
  "\<exists>r p. switchToCelo env = (r, p) \<and>
     (case r of
        Inl e \<Rightarrow> \<not> notifiesFailure p
      | Inr None \<Rightarrow> \<not> notifiesFailure p \<and> (thrownBy p = [] \<or> recoveredSwitch (thrownBy p))
      | Inr (Some b) \<Rightarrow> \<not> b \<and> notifiesFailure p)"
  by (auto simp: switchToCelo_def io_defs notifiesFailure_def recoveredSwitch_def readCode_def
      split: sum.splits js_exn.splits)

lemma wb_bind_switch:
  assumes "wellBehaved (\<lambda>ths. ths = []) rest"
  shows "wellBehaved (\<lambda>ths. ths = [] \<or> recoveredSwitch ths)
           (bindIO (switchToCelo env) (\<lambda>returned. case returned of
              Some b \<Rightarrow> ret b | None \<Rightarrow> rest))"
proof -
  from switchToCelo_outcome [of env] obtain r p where
    s: "switchToCelo env = (r, p)" and
    c: "case r of
        Inl e \<Rightarrow> \<not> notifiesFailure p
      | Inr None \<Rightarrow> \<not> notifiesFailure p \<and> (thrownBy p = [] \<or> recoveredSwitch (thrownBy p))
      | Inr (Some b) \<Rightarrow> \<not> b \<and> notifiesFailure p"
    by blast
  show ?thesis
  proof (cases r)
    case (Inl e)
    then show ?thesis using s c by (simp add: bindIO_def wellBehaved_def)
  next
    case (Inr returned)
    show ?thesis
    proof (cases returned)
      case (Some b)
      then show ?thesis using Inr s c by (simp add: bindIO_def ret_def wellBehaved_def)
    next
      case None
      have q: "\<not> notifiesFailure p" "thrownBy p = [] \<or> recoveredSwitch (thrownBy p)"
        using None Inr c by simp_all
      have "wellBehaved (\<lambda>ths. thrownBy p @ ths = [] \<or> recoveredSwitch (thrownBy p @ ths))
              rest"
        by (rule wb_mono [OF assms]) (use q(2) in auto)
      then have "wellBehaved (\<lambda>ths. ths = [] \<or> recoveredSwitch ths) (prepend p rest)"
        using q(1) by (intro wb_prepend)
      then show ?thesis using None Inr s by (simp add: bindIO_Inr)
    qed
  qed
qed

lemma transferERC20_outcome:
  "\<exists>b t. transferERC20 env tokenAddress recipient amt = (Inr b, t)
            \<and> b = (\<not> notifiesFailure t)
            \<and> (if b then thrownBy t = [] \<or> recoveredSwitch (thrownBy t) else True)"
  unfolding transferERC20_def Let_def seqIO_bindIO seqIO_seqIO seqIO_if
  by (rule wb_catch) (auto intro!: wb_rules wb_bind_switch)

lemma transferTokens_outcome:
  "\<exists>b t. transferTokens env params = (Inr b, t) \<and> b = (\<not> notifiesFailure t)
            \<and> (if b then thrownBy t = [] \<or> recoveredSwitch (thrownBy t) else True)"
proof -
  consider (evm) "chain_tok (token params) = ''evm''"
    | (svm) "chain_tok (token params) = ''svm''"
    | (mvm) "chain_tok (token params) = ''mvm''"
    | (other) "chain_tok (token params) \<noteq> ''evm''" "chain_tok (token params) \<noteq> ''svm''"
        "chain_tok (token params) \<noteq> ''mvm''"
    by blast
  then show ?thesis
  proof cases
    case evm
    then show ?thesis
      using transferERC20_outcome
        [of env "if address (token params) \<noteq> [] then address (token params) else ''native''"
          "toAddress params" "amount params"]
      by (auto simp: transferTokens_def Let_def)
  next
    case svm
    then show ?thesis
      using transferSOL_outcome [of env "toAddress params" "amount params"]
      by (auto simp: transferTokens_def)
  next
    case mvm
    then show ?thesis
      using transferMVMToken_outcome [of env "token params" "toAddress params" "amount params"]
      by (auto simp: transferTokens_def)
  next
    case other
    then show ?thesis
      by (auto simp: transferTokens_def io_defs notifiesFailure_def)
  qed
qed

text \<open>
  C8, as the claim states it, fails: an error raised by an extension call does not always
  make the routine return \<open>false\<close>. When MetaMask rejects the first
  \<open>wallet_switchEthereumChain\<close> request with code 4902, \<open>transferERC20\<close> catches the error,
  adds the network, switches again, and the transfer succeeds: the result is \<open>true\<close> and no
  failure is notified.
\<close>

theorem transfer_succeeds_after_switch_error:
  "thrownBy (snd (transferTokens unknownChainEnv celoTransferParams))
     = [(''wallet_switchEthereumChain'', JsValue (Some 4902))]
   \<and> fst (transferTokens unknownChainEnv celoTransferParams) = Inr True
   \<and> \<not> notifiesFailure (snd (transferTokens unknownChainEnv celoTransferParams))"
  by (simp add: transferTokens_def transferERC20_def switchToCelo_def transferFailed_def
      readCode_def io_defs scenario_defs unknownChainEnv_def celoTransferParams_def
      celoToken_def notifiesFailure_def)

text \<open>
  C8, amended. \<open>transferTokens\<close> and the three chain-specific routines are total at their
  public interface: for every input and every answer of the extensions and SDKs,
  including every thrown error, the result is a boolean and no error escapes; the result
  is \<open>false\<close> exactly when a destructive notification was shown; and whenever a call
  threw, the result is \<open>false\<close>, with one exception: in the EVM routine a first
  \<open>wallet_switchEthereumChain\<close> request rejected with code 4902 is recovered from (the
  network is added and the switch repeated), and the transfer may still return \<open>true\<close>.
\<close>

theorem transfer_routines_return_booleans:
  "fst (transferERC20 env tokenAddress recipient amt)
     = Inr (\<not> notifiesFailure (snd (transferERC20 env tokenAddress recipient amt)))
   \<and> (thrownBy (snd (transferERC20 env tokenAddress recipient amt)) \<noteq> []
        \<and> \<not> recoveredSwitch (thrownBy (snd (transferERC20 env tokenAddress recipient amt)))
      \<longrightarrow> fst (transferERC20 env tokenAddress recipient amt) = Inr False)
   \<and> fst (transferSOL env recipient amt)
     = Inr (\<not> notifiesFailure (snd (transferSOL env recipient amt)))
   \<and> (thrownBy (snd (transferSOL env recipient amt)) \<noteq> []
      \<longrightarrow> fst (transferSOL env recipient amt) = Inr False)
   \<and> fst (transferMVMToken env tok recipient amt)
     = Inr (\<not> notifiesFailure (snd (transferMVMToken env tok recipient amt)))
   \<and> (thrownBy (snd (transferMVMToken env tok recipient amt)) \<noteq> []
      \<longrightarrow> fst (transferMVMToken env tok recipient amt) = Inr False)
   \<and> fst (transferTokens env params)
     = Inr (\<not> notifiesFailure (snd (transferTokens env params)))
   \<and> (thrownBy (snd (transferTokens env params)) \<noteq> []
        \<and> \<not> recoveredSwitch (thrownBy (snd (transferTokens env params)))
      \<longrightarrow> fst (transferTokens env params) = Inr False)"
proof -
  obtain b1 t1 where e1: "transferERC20 env tokenAddress recipient amt = (Inr b1, t1)"
      "b1 = (\<not> notifiesFailure t1)"
      "if b1 then thrownBy t1 = [] \<or> recoveredSwitch (thrownBy t1) else True"
    using transferERC20_outcome by blast
  obtain b2 t2 where e2: "transferSOL env recipient amt = (Inr b2, t2)"
      "b2 = (\<not> notifiesFailure t2)" "if b2 then thrownBy t2 = [] else True"
    using transferSOL_outcome by blast
  obtain b3 t3 where e3: "transferMVMToken env tok recipient amt = (Inr b3, t3)"
      "b3 = (\<not> notifiesFailure t3)" "if b3 then thrownBy t3 = [] else True"
    using transferMVMToken_outcome by blast
  obtain b4 t4 where e4: "transferTokens env params = (Inr b4, t4)"
      "b4 = (\<not> notifiesFailure t4)"
      "if b4 then thrownBy t4 = [] \<or> recoveredSwitch (thrownBy t4) else True"
    using transferTokens_outcome by blast
  have p1: "fst (transferERC20 env tokenAddress recipient amt)
     = Inr (\<not> notifiesFailure (snd (transferERC20 env tokenAddress recipient amt)))
   \<and> (thrownBy (snd (transferERC20 env tokenAddress recipient amt)) \<noteq> []
        \<and> \<not> recoveredSwitch (thrownBy (snd (transferERC20 env tokenAddress recipient amt)))
      \<longrightarrow> fst (transferERC20 env tokenAddress recipient amt) = Inr False)"
    using e1 by (cases b1) auto
  have p2: "fst (transferSOL env recipient amt)
     = Inr (\<not> notifiesFailure (snd (transferSOL env recipient amt)))
   \<and> (thrownBy (snd (transferSOL env recipient amt)) \<noteq> []
      \<longrightarrow> fst (transferSOL env recipient amt) = Inr False)"
    using e2 by (cases b2) auto
  have p3: "fst (transferMVMToken env tok recipient amt)
     = Inr (\<not> notifiesFailure (snd (transferMVMToken env tok recipient amt)))
   \<and> (thrownBy (snd (transferMVMToken env tok recipient amt)) \<noteq> []
      \<longrightarrow> fst (transferMVMToken env tok recipient amt) = Inr False)"
    using e3 by (cases b3) auto
  have p4: "fst (transferTokens env params)
     = Inr (\<not> notifiesFailure (snd (transferTokens env params)))
   \<and> (thrownBy (snd (transferTokens env params)) \<noteq> []
        \<and> \<not> recoveredSwitch (thrownBy (snd (transferTokens env params)))
      \<longrightarrow> fst (transferTokens env params) = Inr False)"
    using e4 by (cases b4) auto
  from p1 p2 p3 p4 show ?thesis by blast
qed

lemma transferERC20_rejected:
  "transferERC20 userRejectsEnv ''native'' ''0xdeadbeef00'' ''0.1'' =
     (Inr False,
      [Sdk ''wallet_switchEthereumChain'' None, Sdk ''provider.getSigner'' None,
       Sdk ''ethers.parseEther'' None, Sdk ''signer.sendTransaction'' (Some userRejects),
       Toast \<lparr>title = ''Transfer Failed'', description = ''User rejected the request.'',
               variant = Destructive\<rparr>])"
  by (simp add: transferERC20_def switchToCelo_def transferFailed_def describeError_def io_defs
      userRejectsEnv_def happyEnv_def userRejects_def)

lemma transferSOL_rejected:
  "transferSOL userRejectsEnv ''ReceiverKey'' ''1'' =
     (Inr False,
      [Sdk ''connection.getBalance'' None, Sdk ''new PublicKey'' None,
       Sdk ''SystemProgram.transfer'' None, Sdk ''connection.getLatestBlockhash'' None,
       Sdk ''solana.signTransaction'' (Some userRejects),
       Toast \<lparr>title = ''Transfer Failed'', description = ''User rejected the request.'',
               variant = Destructive\<rparr>])"
  by (simp add: transferSOL_def transferFailed_def describeError_def io_defs parseFloat_1
      mulNum_def LAMPORTS_PER_SOL_def userRejectsEnv_def happyEnv_def userRejects_def)

lemma transferMVMToken_rejected:
  "transferMVMToken userRejectsEnv aptToken ''0xb0b'' ''1'' =
     (Inr False,
      [Sdk ''petra.isConnected'' None, Sdk ''petra.account'' None, Sdk ''BigNumber'' None,
       Sdk ''client.getLedgerInfo'' None, ConsoleLog ''Local time (s):'',
       Sdk ''petra.signAndSubmitTransaction'' (Some userRejects),
       Toast \<lparr>title = ''Transfer Failed'', description = ''User rejected the request.'',
               variant = Destructive\<rparr>])"
  by (simp add: transferMVMToken_def transferFailed_def describeError_def io_defs
      userRejectsEnv_def happyEnv_def userRejects_def aptToken_def)

theorem transfer_routines_return_booleans_witness:
  "thrownBy (snd (transferERC20 userRejectsEnv ''native'' ''0xdeadbeef00'' ''0.1''))
     = [(''signer.sendTransaction'', userRejects)]
   \<and> \<not> recoveredSwitch [(''signer.sendTransaction'', userRejects)]
   \<and> fst (transferERC20 userRejectsEnv ''native'' ''0xdeadbeef00'' ''0.1'') = Inr False
   \<and> notifiesFailure (snd (transferERC20 userRejectsEnv ''native'' ''0xdeadbeef00'' ''0.1''))
   \<and> thrownBy (snd (transferSOL userRejectsEnv ''ReceiverKey'' ''1''))
     = [(''solana.signTransaction'', userRejects)]
   \<and> fst (transferSOL userRejectsEnv ''ReceiverKey'' ''1'') = Inr False
   \<and> thrownBy (snd (transferMVMToken userRejectsEnv aptToken ''0xb0b'' ''1''))
     = [(''petra.signAndSubmitTransaction'', userRejects)]
   \<and> fst (transferMVMToken userRejectsEnv aptToken ''0xb0b'' ''1'') = Inr False
   \<and> thrownBy (snd (transferTokens userRejectsEnv aptTransferParams))
     = [(''petra.signAndSubmitTransaction'', userRejects)]
   \<and> fst (transferTokens userRejectsEnv aptTransferParams) = Inr False"
proof -
  have t: "transferTokens userRejectsEnv aptTransferParams
             = transferMVMToken userRejectsEnv aptToken ''0xb0b'' ''1''"
    by (simp add: transferTokens_def aptTransferParams_def aptToken_def)
  show ?thesis
    using transfer_routines_return_booleans
        [of userRejectsEnv "''native''" "''0xdeadbeef00''" "''0.1''" aptToken aptTransferParams]
      transfer_routines_return_booleans
        [of userRejectsEnv "''native''" "''ReceiverKey''" "''1''" aptToken aptTransferParams]
      transfer_routines_return_booleans
        [of userRejectsEnv "''native''" "''0xb0b''" "''1''" aptToken aptTransferParams]
    by (simp add: t transferERC20_rejected transferSOL_rejected transferMVMToken_rejected
        notifiesFailure_def recoveredSwitch_def)
qed


end
